theory Spec2Isabelle
  imports Complex_Main
begin

section \<open>Data model\<close>

text \<open>
  Modelled from the spec: the declarations of \<^verbatim>\<open>types.ts\<close> (\<^verbatim>\<open>Subject\<close>, \<^verbatim>\<open>Role\<close>,
  \<^verbatim>\<open>Message\<close>) are imported by every hook but are not among the sources. The spec
  names the subjects MATH, PHYSICS, CHEMISTRY, CODING and GENERAL and leaves the list
  open; \<open>OTHER\<close> stands for any further member. The string value of a member (what a
  template literal prints for it) is not known, so every function that prints a subject
  takes it as the parameter \<open>sv\<close>.
\<close>

datatype Subject = MATH | PHYSICS | CHEMISTRY | CODING | GENERAL | OTHER string

datatype Role = USER | ASSISTANT

text \<open>
  The attachment parameter of \<^verbatim>\<open>sendMessage\<close>:
  \<^verbatim>\<open>{ content: string, type: 'image' | 'text', mimeType?: string }\<close>.
\<close>

datatype AttachmentType = IMAGE | TEXT

record Attachment =
  att_content :: string
  att_type :: AttachmentType
  att_mimeType :: "string option"

record Message =
  msg_role :: Role
  msg_content :: string
  msg_attachment :: "Attachment option"

text \<open>
  A thrown JavaScript value, as far as the hooks read it: \<^verbatim>\<open>err.message\<close> and
  \<^verbatim>\<open>err.status\<close>, either of which may be undefined. \<open>Error m\<close> is
  \<^verbatim>\<open>new Error(m)\<close>.
\<close>

datatype JsError = JsError (message: "string option") (status: "int option")

definition Error :: "string \<Rightarrow> JsError" where
  "Error m = JsError (Some m) None"

section \<open>JavaScript string helpers\<close>

definition nl :: string where
  "nl = [CHR 0x0A]"

fun startsWith :: "string \<Rightarrow> string \<Rightarrow> bool" where
  "startsWith s [] = True"
| "startsWith [] (p # ps) = False"
| "startsWith (c # cs) (p # ps) = (c = p \<and> startsWith cs ps)"

text \<open>\<^verbatim>\<open>s.includes(p)\<close>: \<open>p\<close> occurs in \<open>s\<close> as a contiguous substring.\<close>

fun str_includes :: "string \<Rightarrow> string \<Rightarrow> bool" where
  "str_includes [] p = (p = [])"
| "str_includes (c # cs) p = (startsWith (c # cs) p \<or> str_includes cs p)"

text \<open>
  \<^verbatim>\<open>s.split(sep)\<close> for a one-character separator: the pieces between the separators,
  in order; a string without the separator is the only piece.
\<close>

fun js_split :: "char \<Rightarrow> string \<Rightarrow> string list" where
  "js_split sep [] = [[]]"
| "js_split sep (c # cs) =
     (if c = sep then [] # js_split sep cs
      else (case js_split sep cs of [] \<Rightarrow> [[c]] | w # ws \<Rightarrow> (c # w) # ws))"

text \<open>\<^verbatim>\<open>xs[i]\<close>: undefined (\<open>None\<close>) out of range.\<close>

definition at_index :: "'a list \<Rightarrow> nat \<Rightarrow> 'a option" where
  "at_index xs i = (if i < length xs then Some (xs ! i) else None)"

text \<open>\<^verbatim>\<open>a || b\<close> on an optional string: undefined and the empty string are falsy.\<close>

definition or_else :: "string option \<Rightarrow> string \<Rightarrow> string" where
  "or_else a b = (case a of None \<Rightarrow> b | Some s \<Rightarrow> if s = [] then b else s)"

definition falsy :: "string option \<Rightarrow> bool" where
  "falsy a = (case a of None \<Rightarrow> True | Some s \<Rightarrow> s = [])"

section \<open>System instruction\<close>

text \<open>
  \<^verbatim>\<open>useAI.ts\<close>, \<^verbatim>\<open>sendMessage\<close>, the common system instruction:
  \<^verbatim>\<open>let systemInstruction = `You are an expert ${subject} tutor. If the user asks ...`;
  if ([Subject.MATH, Subject.PHYSICS, Subject.CHEMISTRY].includes(subject))
      systemInstruction += ` Use LaTeX for all math equations. ...`;\<close>
\<close>

definition latexDirective :: string where
  "latexDirective = '' Use LaTeX for all math equations. Wrap block equations in $$ and inline in $. Provide clear, step-by-step explanations.''"

definition systemInstruction :: "(Subject \<Rightarrow> string) \<Rightarrow> Subject \<Rightarrow> string" where
  "systemInstruction sv subject =
     (''You are an expert '' @ sv subject @
        '' tutor. If the user asks for a comparison or list, ALWAYS format the output as a Markdown Table.'')
     @ (if subject \<in> set [MATH, PHYSICS, CHEMISTRY] then latexDirective else [])"

text \<open>
  The service variant \<^verbatim>\<open>getSystemInstruction\<close>. The quantitative branch is a
  multi-line template literal; \<open>quantitativeTail\<close> is what follows the base instruction
  in it: each line break is a newline followed by four spaces.
\<close>

definition baseInstruction :: "(Subject \<Rightarrow> string) \<Rightarrow> Subject \<Rightarrow> string" where
  "baseInstruction sv subject =
     ''You are a helpful, expert tutor specializing in '' @ sv subject @ ''.''"

definition quantitativeTail :: string where
  "quantitativeTail =
     '' '' @ nl @
     ''    - CRITICAL: You MUST use LaTeX formatting for all mathematical equations, formulas, and symbols.'' @ nl @
     ''    - Wrap block equations in double dollar signs: $$ ... $$'' @ nl @
     ''    - Wrap inline equations in single dollar signs: $ ... $'' @ nl @
     ''    - Explain concepts step-by-step.'' @ nl @
     ''    - If the user makes a mistake, gently correct them.''"

definition getSystemInstruction :: "(Subject \<Rightarrow> string) \<Rightarrow> Subject \<Rightarrow> string" where
  "getSystemInstruction sv subject =
     (if subject = MATH \<or> subject = PHYSICS \<or> subject = CHEMISTRY then
        baseInstruction sv subject @ quantitativeTail
      else if subject = CODING then
        baseInstruction sv subject @
        '' Provide clean, well-commented code snippets. Explain the logic behind the code.''
      else baseInstruction sv subject @ '' Be concise and clear.'')"

section \<open>Providers, observable effects and hook state\<close>

text \<open>
  A Groq chat-completion request, as \<^verbatim>\<open>groq.chat.completions.create\<close> receives it;
  a message is its role and its content.
\<close>

datatype GroqMessage = GroqMessage string string

record GroqRequest =
  gr_messages :: "GroqMessage list"
  gr_model :: string
  gr_temperature :: rat
  gr_max_tokens :: nat

text \<open>
  Gemini content parts (\<^verbatim>\<open>{ text }\<close> and \<^verbatim>\<open>{ inlineData: { data, mimeType } }\<close>), a
  history turn (role and parts), the configured model and the chat session.
\<close>

datatype Part = TextPart string | InlineData string string

datatype GeminiTurn = GeminiTurn string "Part list"

record GeminiModel =
  gm_model :: string
  gm_systemInstruction :: string
  gm_safetySettings :: "(string \<times> string) list"

record GeminiChat =
  gc_model :: GeminiModel
  gc_history :: "GeminiTurn list"
  gc_maxOutputTokens :: nat
  gc_temperature :: rat

text \<open>
  What a call of a hook does to the outside, in order: its calls of the providers' client
  methods (\<^verbatim>\<open>groq.chat.completions.create\<close>, \<^verbatim>\<open>model.generateContent\<close>,
  \<^verbatim>\<open>chat.sendMessage\<close>) and its timer waits
  (\<^verbatim>\<open>await new Promise(resolve => setTimeout(resolve, ms))\<close>). One effect is one call
  made by the hook. What a client library does inside such a call, the requests it sends
  and any retry of its own, is not in the sources and shows only in the outcome of the
  call.
\<close>

datatype Effect =
    GroqCreate GroqRequest
  | GenerateContent GeminiModel "Part list"
  | ChatSendMessage GeminiChat string
  | SetTimeout nat

text \<open>
  The environment of a call: the two keys of \<^verbatim>\<open>import.meta.env\<close> and the behaviour
  of the providers. A provider call either throws (\<open>Inl\<close>) or yields its text
  (\<open>Inr\<close>); for Groq the text is \<^verbatim>\<open>completion.choices[0]?.message?.content\<close>, which
  may be undefined. \<open>gemini_sendMessage w k\<close> is the answer to the \<open>k\<close>-th
  \<^verbatim>\<open>chat.sendMessage\<close> of one chat session (counted from 0), so that a provider may
  fail first and succeed later. \<open>gemini_startChat w chat\<close> is what
  \<^verbatim>\<open>model.startChat\<close> does with the session it is asked for: the client library checks
  the history and may refuse it by throwing (\<open>Some e\<close>), before anything is sent.
  Building the other client objects is taken not to throw.
\<close>

record World =
  VITE_GROQ_API_KEY :: "string option"
  VITE_GEMINI_API_KEY :: "string option"
  groq_create :: "GroqRequest \<Rightarrow> JsError + string option"
  gemini_generateContent :: "GeminiModel \<Rightarrow> Part list \<Rightarrow> JsError + string"
  gemini_startChat :: "GeminiChat \<Rightarrow> JsError option"
  gemini_sendMessage :: "nat \<Rightarrow> GeminiChat \<Rightarrow> string \<Rightarrow> JsError + string"

text \<open>
  The three \<^verbatim>\<open>useState\<close> cells of a hook, and the effects performed so far.
\<close>

record State =
  isLoading :: bool
  error :: "string option"
  statusMessage :: "string option"
  effects :: "Effect list"

definition perform :: "Effect \<Rightarrow> State \<Rightarrow> State" where
  "perform e st = st\<lparr>effects := effects st @ [e]\<rparr>"

text \<open>
  \<^verbatim>\<open>const is429 = geminiErr.message?.includes('429') || geminiErr.status === 429;\<close>
\<close>

definition is429 :: "JsError \<Rightarrow> bool" where
  "is429 e = ((case message e of Some m \<Rightarrow> str_includes m ''429'' | None \<Rightarrow> False)
              \<or> status e = Some 429)"

section \<open>useAI: sendMessage\<close>

text \<open>The history mappings of the Groq route and of the Gemini fallback.\<close>

definition groqHistory :: "Message list \<Rightarrow> GroqMessage list" where
  "groqHistory previousMessages =
     map (\<lambda>msg. GroqMessage
            (if msg_role msg = USER then ''user'' else ''assistant'')
            (msg_content msg @
               (case msg_attachment msg of
                  Some a \<Rightarrow> if att_type a = TEXT then nl @ ''[File]: '' @ att_content a else []
                | None \<Rightarrow> [])))
         previousMessages"

definition geminiHistory :: "Message list \<Rightarrow> GeminiTurn list" where
  "geminiHistory previousMessages =
     map (\<lambda>msg. GeminiTurn
            (if msg_role msg = USER then ''user'' else ''model'')
            [TextPart (msg_content msg)])
         previousMessages"

text \<open>
  \<^verbatim>\<open>const base64Data = attachment.content.split(',')[1] || attachment.content;\<close>
\<close>

definition base64Data :: "string \<Rightarrow> string" where
  "base64Data content = or_else (at_index (js_split (CHR '','') content) 1) content"

text \<open>
  The model both Gemini paths of \<^verbatim>\<open>useAI\<close> configure, and the parts of the image
  request: the prompt text, then the inline image when the attachment has content.
\<close>

definition flashModel :: "string \<Rightarrow> GeminiModel" where
  "flashModel sysInstr =
     \<lparr>gm_model = ''gemini-1.5-flash'', gm_systemInstruction = sysInstr, gm_safetySettings = []\<rparr>"

definition promptParts :: "string \<Rightarrow> Attachment option \<Rightarrow> Part list" where
  "promptParts text attachment =
     [TextPart text] @
     (case attachment of
        Some a \<Rightarrow>
          if att_content a \<noteq> [] then
            [InlineData (base64Data (att_content a)) (or_else (att_mimeType a) ''image/jpeg'')]
          else []
      | None \<Rightarrow> [])"

text \<open>
  The image route: the body of the \<^verbatim>\<open>try\<close>, then the \<^verbatim>\<open>catch\<close>, which records the
  message and rethrows.
\<close>

definition visionRoute ::
  "World \<Rightarrow> State \<Rightarrow> string \<Rightarrow> string \<Rightarrow> Attachment option \<Rightarrow> State \<times> (JsError + string)" where
  "visionRoute w st sysInstr text attachment =
     (let st1 = st\<lparr>statusMessage := Some ''Analyzing image...''\<rparr>;
          (st2, r) =
            (if falsy (VITE_GEMINI_API_KEY w) then (st1, Inl (Error ''Gemini API Key missing''))
             else
               let model = flashModel sysInstr;
                   parts = promptParts text attachment
               in (perform (GenerateContent model parts) st1,
                   gemini_generateContent w model parts))
      in case r of
           Inr response \<Rightarrow> (st2, Inr response)
         | Inl visionError \<Rightarrow>
             (st2\<lparr>error := Some (or_else (message visionError) ''Failed to analyze image.'')\<rparr>,
              Inl visionError))"

text \<open>
  The Groq route: the body of the outer \<^verbatim>\<open>try\<close>. The request is made once; a missing
  key, a thrown error and an empty response all leave the block as a thrown error.
\<close>

definition finalPrompt :: "string \<Rightarrow> Attachment option \<Rightarrow> string" where
  "finalPrompt text attachment =
     text @ (case attachment of
               Some a \<Rightarrow> if att_type a = TEXT
                         then nl @ nl @ ''[Attached File Content]:'' @ nl @ att_content a else []
             | None \<Rightarrow> [])"

definition groqRequest ::
  "string \<Rightarrow> string \<Rightarrow> Message list \<Rightarrow> Attachment option \<Rightarrow> GroqRequest" where
  "groqRequest sysInstr text previousMessages attachment =
     \<lparr>gr_messages = [GroqMessage ''system'' sysInstr] @ groqHistory previousMessages
                     @ [GroqMessage ''user'' (finalPrompt text attachment)],
      gr_model = ''llama-3.3-70b-versatile'', gr_temperature = 7 / 10, gr_max_tokens = 1024\<rparr>"

definition groqRoute ::
  "World \<Rightarrow> State \<Rightarrow> string \<Rightarrow> string \<Rightarrow> Message list \<Rightarrow> Attachment option
     \<Rightarrow> State \<times> (JsError + string)" where
  "groqRoute w st sysInstr text previousMessages attachment =
     (if falsy (VITE_GROQ_API_KEY w) then (st, Inl (Error ''Groq API Key missing''))
      else
        let request = groqRequest sysInstr text previousMessages attachment;
            st1 = perform (GroqCreate request) st
        in case groq_create w request of
             Inl e \<Rightarrow> (st1, Inl e)
           | Inr None \<Rightarrow> (st1, Inl (Error ''Empty response from Groq''))
           | Inr (Some response) \<Rightarrow>
               if response = [] then (st1, Inl (Error ''Empty response from Groq''))
               else (st1, Inr response))"

text \<open>
  The retry loop of the fallback,
  \<^verbatim>\<open>while (attempt <= maxRetries) { try { ...; return ... } catch (geminiErr) { ... } }
  throw new Error("Max retries exceeded on fallback.");\<close>
  Each iteration sends once, so the iteration with counter \<open>attempt\<close> is the
  \<open>attempt\<close>-th send of the chat.
\<close>

function fallbackLoop ::
  "World \<Rightarrow> GeminiChat \<Rightarrow> string \<Rightarrow> nat \<Rightarrow> nat \<Rightarrow> State \<Rightarrow> State \<times> (JsError + string)" where
  "fallbackLoop w chat prompt maxRetries attempt st =
     (if attempt \<le> maxRetries then
        (let st1 = perform (ChatSendMessage chat prompt) st in
         case gemini_sendMessage w attempt chat prompt of
           Inr response \<Rightarrow> (st1, Inr response)
         | Inl geminiErr \<Rightarrow>
             if is429 geminiErr \<and> attempt < maxRetries then
               fallbackLoop w chat prompt maxRetries (attempt + 1)
                 (perform (SetTimeout 3000)
                    (st1\<lparr>statusMessage := Some ''Server busy. Retrying backup connection...''\<rparr>))
             else (st1, Inl geminiErr))
      else (st, Inl (Error ''Max retries exceeded on fallback.'')))"
  by pat_completeness auto
termination
  by (relation "measure (\<lambda>(w, chat, prompt, maxRetries, attempt, st). Suc maxRetries - attempt)")
     auto

declare fallbackLoop.simps [simp del]

definition fallbackPrompt :: "string \<Rightarrow> Attachment option \<Rightarrow> string" where
  "fallbackPrompt text attachment =
     text @ (case attachment of
               Some a \<Rightarrow> if att_type a = TEXT
                         then nl @ nl @ ''File Content:'' @ nl @ att_content a else []
             | None \<Rightarrow> [])"

definition fallbackChat :: "string \<Rightarrow> Message list \<Rightarrow> GeminiChat" where
  "fallbackChat sysInstr previousMessages =
     \<lparr>gc_model = flashModel sysInstr, gc_history = geminiHistory previousMessages,
      gc_maxOutputTokens = 1000, gc_temperature = 7 / 10\<rparr>"

text \<open>
  The \<^verbatim>\<open>catch (groqError)\<close> block: the Gemini fallback in its own \<^verbatim>\<open>try\<close> (the key
  check, \<^verbatim>\<open>model.startChat\<close>, then the retry loop), and the \<^verbatim>\<open>catch (finalError)\<close>
  that records the message and rethrows.
\<close>

definition geminiFallback ::
  "World \<Rightarrow> State \<Rightarrow> string \<Rightarrow> string \<Rightarrow> Message list \<Rightarrow> Attachment option
     \<Rightarrow> State \<times> (JsError + string)" where
  "geminiFallback w st sysInstr text previousMessages attachment =
     (let st1 = st\<lparr>statusMessage := Some ''Traffic high. Switching to backup AI...''\<rparr>;
          maxRetries = 1;
          (st2, r) =
            (if falsy (VITE_GEMINI_API_KEY w) then (st1, Inl (Error ''Gemini API Key missing''))
             else
               let chat = fallbackChat sysInstr previousMessages
               in case gemini_startChat w chat of
                    Some e \<Rightarrow> (st1, Inl e)
                  | None \<Rightarrow>
                      fallbackLoop w chat (fallbackPrompt text attachment) maxRetries 0 st1)
      in case r of
           Inr response \<Rightarrow> (st2, Inr response)
         | Inl finalError \<Rightarrow>
             (st2\<lparr>error := Some (or_else (message finalError)
                                      ''All AI services are currently busy.'')\<rparr>,
              Inl finalError))"

text \<open>\<^verbatim>\<open>const hasImage = attachment?.type === 'image';\<close>\<close>

definition hasImage :: "Attachment option \<Rightarrow> bool" where
  "hasImage attachment = (case attachment of Some a \<Rightarrow> att_type a = IMAGE | None \<Rightarrow> False)"

text \<open>
  \<^verbatim>\<open>sendMessage(text, subject, previousMessages, attachment?)\<close> of \<^verbatim>\<open>useAI\<close>: the new
  state of the hook and either the thrown error or the returned text.
\<close>

definition sendMessage ::
  "(Subject \<Rightarrow> string) \<Rightarrow> World \<Rightarrow> State \<Rightarrow> string \<Rightarrow> Subject \<Rightarrow> Message list
     \<Rightarrow> Attachment option \<Rightarrow> State \<times> (JsError + string)" where
  "sendMessage sv w st0 text subject previousMessages attachment =
     (let st = st0\<lparr>isLoading := True, error := None, statusMessage := None\<rparr>;
          sysInstr = systemInstruction sv subject
      in if hasImage attachment then visionRoute w st sysInstr text attachment
         else
           (case groqRoute w st sysInstr text previousMessages attachment of
              (st1, Inr response) \<Rightarrow> (st1, Inr response)
            | (st1, Inl groqError) \<Rightarrow>
                geminiFallback w st1 sysInstr text previousMessages attachment))"

section \<open>useGemini: sendMessage\<close>

text \<open>
  The Gemini-only hook. Its instruction has no table sentence, its model carries safety
  settings, and its \<^verbatim>\<open>try\<close> has a \<^verbatim>\<open>finally\<close> that resets the busy flag and the
  status.
\<close>

definition geminiInstruction :: "(Subject \<Rightarrow> string) \<Rightarrow> Subject \<Rightarrow> string" where
  "geminiInstruction sv subject =
     (''You are an expert '' @ sv subject @ '' tutor.'')
     @ (if subject \<in> set [MATH, PHYSICS, CHEMISTRY] then latexDirective else [])"

definition safetySettings :: "(string \<times> string) list" where
  "safetySettings =
     [(''HARM_CATEGORY_HARASSMENT'', ''BLOCK_ONLY_HIGH''),
      (''HARM_CATEGORY_HATE_SPEECH'', ''BLOCK_ONLY_HIGH''),
      (''HARM_CATEGORY_SEXUALLY_EXPLICIT'', ''BLOCK_ONLY_HIGH''),
      (''HARM_CATEGORY_DANGEROUS_CONTENT'', ''BLOCK_ONLY_HIGH'')]"

function geminiLoop ::
  "World \<Rightarrow> GeminiChat \<Rightarrow> string \<Rightarrow> nat \<Rightarrow> nat \<Rightarrow> State \<Rightarrow> State \<times> (JsError + string)" where
  "geminiLoop w chat text maxRetries attempt st =
     (if attempt \<le> maxRetries then
        (let st1 = perform (ChatSendMessage chat text) st in
         case gemini_sendMessage w attempt chat text of
           Inr response \<Rightarrow> (st1, Inr response)
         | Inl err \<Rightarrow>
             if is429 err \<and> attempt < maxRetries then
               geminiLoop w chat text maxRetries (attempt + 1)
                 ((perform (SetTimeout 3000)
                     (st1\<lparr>statusMessage :=
                            Some ''Server is busy (High Traffic). Retrying in 3 seconds...''\<rparr>))
                  \<lparr>statusMessage := Some ''Retrying now...''\<rparr>)
             else (st1, Inl err))
      else (st, Inl (Error ''Max retries exceeded.'')))"
  by pat_completeness auto
termination
  by (relation "measure (\<lambda>(w, chat, text, maxRetries, attempt, st). Suc maxRetries - attempt)")
     auto

declare geminiLoop.simps [simp del]

definition geminiChat :: "string \<Rightarrow> Message list \<Rightarrow> GeminiChat" where
  "geminiChat sysInstr previousMessages =
     \<lparr>gc_model = \<lparr>gm_model = ''gemini-2.0-flash'', gm_systemInstruction = sysInstr,
                  gm_safetySettings = safetySettings\<rparr>,
      gc_history = geminiHistory previousMessages,
      gc_maxOutputTokens = 1000, gc_temperature = 7 / 10\<rparr>"

definition useGemini_sendMessage ::
  "(Subject \<Rightarrow> string) \<Rightarrow> World \<Rightarrow> State \<Rightarrow> string \<Rightarrow> Subject \<Rightarrow> Message list
     \<Rightarrow> State \<times> (JsError + string)" where
  "useGemini_sendMessage sv w st0 text subject previousMessages =
     (let st = st0\<lparr>isLoading := True, error := None, statusMessage := None\<rparr>;
          maxRetries = 1;
          (st1, r) =
            (if falsy (VITE_GEMINI_API_KEY w) then
               (st, Inl (Error ''Gemini API Key is not configured (VITE_GEMINI_API_KEY missing).''))
             else
               let chat = geminiChat (geminiInstruction sv subject) previousMessages
               in case gemini_startChat w chat of
                    Some e \<Rightarrow> (st, Inl e)
                  | None \<Rightarrow> geminiLoop w chat text maxRetries 0 st);
          (st2, r2) =
            (case r of
               Inr response \<Rightarrow> (st1, Inr response)
             | Inl err \<Rightarrow>
                 (st1\<lparr>error := Some (or_else (message err) ''Failed to communicate with Gemini.''),
                      statusMessage := None\<rparr>,
                  Inl err))
      in (st2\<lparr>isLoading := False, statusMessage := None\<rparr>, r2))"

section \<open>Reading a run\<close>

text \<open>
  A provider answer is rate limited when it is a thrown error that \<open>is429\<close> accepts.
\<close>

definition rateLimited :: "JsError + string \<Rightarrow> bool" where
  "rateLimited r = (case r of Inl e \<Rightarrow> is429 e | Inr _ \<Rightarrow> False)"

text \<open>
  The effects of a chat request that is sent, then \<open>n\<close> times waited for three
  seconds and sent again.
\<close>

definition retryTrace :: "nat \<Rightarrow> GeminiChat \<Rightarrow> string \<Rightarrow> Effect list" where
  "retryTrace n chat prompt =
     concat (replicate n [ChatSendMessage chat prompt, SetTimeout 3000])
     @ [ChatSendMessage chat prompt]"

text \<open>The requests of a run, by provider, and its waits.\<close>

fun isGroqCall :: "Effect \<Rightarrow> bool" where
  "isGroqCall (GroqCreate _) = True"
| "isGroqCall _ = False"

fun isGeminiCall :: "Effect \<Rightarrow> bool" where
  "isGeminiCall (GenerateContent _ _) = True"
| "isGeminiCall (ChatSendMessage _ _) = True"
| "isGeminiCall _ = False"

fun isWait :: "Effect \<Rightarrow> bool" where
  "isWait (SetTimeout _) = True"
| "isWait _ = False"

text \<open>
  The outcome of the Groq \<^verbatim>\<open>try\<close> block as the provider's answer decides it: a thrown
  error, or a response that is undefined or empty, is a failure of the primary.
\<close>

definition primaryFails :: "JsError + string option \<Rightarrow> bool" where
  "primaryFails r = (case r of Inl _ \<Rightarrow> True | Inr None \<Rightarrow> True | Inr (Some t) \<Rightarrow> t = [])"

text \<open>
  The claim about the image payload speaks of the substring after the first comma of the
  content. This is that substring, written from the claim's words and not from the
  code: everything that follows the first comma, empty when there is no comma.
\<close>

definition afterFirstComma :: "string \<Rightarrow> string" where
  "afterFirstComma s = drop 1 (dropWhile (\<lambda>c. c \<noteq> CHR '','') s)"

section \<open>Stub environments\<close>

text \<open>
  Concrete providers and inputs on which the theorems below are run.
\<close>

definition st_idle :: State where
  "st_idle = \<lparr>isLoading = False, error = None, statusMessage = None, effects = []\<rparr>"

definition sv0 :: "Subject \<Rightarrow> string" where
  "sv0 s = (case s of MATH \<Rightarrow> ''Math'' | PHYSICS \<Rightarrow> ''Physics'' | CHEMISTRY \<Rightarrow> ''Chemistry''
            | CODING \<Rightarrow> ''Coding'' | GENERAL \<Rightarrow> ''General'' | OTHER n \<Rightarrow> n)"

definition err429 :: JsError where
  "err429 = JsError (Some ''[429 Too Many Requests] Resource has been exhausted'') None"

definition err500 :: JsError where
  "err500 = JsError (Some ''Internal error'') (Some 500)"

text \<open>Groq throws a server error; Gemini answers at once.\<close>

definition w_fallback_ok :: World where
  "w_fallback_ok =
     \<lparr>VITE_GROQ_API_KEY = Some ''gsk'', VITE_GEMINI_API_KEY = Some ''AIza'',
      groq_create = (\<lambda>_. Inl err500),
      gemini_generateContent = (\<lambda>_ _. Inr ''seen''),
      gemini_startChat = (\<lambda>_. None),
      gemini_sendMessage = (\<lambda>_ _ _. Inr ''backup answer'')\<rparr>"

text \<open>Every provider is rate limited on every call.\<close>

definition w_all429 :: World where
  "w_all429 =
     \<lparr>VITE_GROQ_API_KEY = Some ''gsk'', VITE_GEMINI_API_KEY = Some ''AIza'',
      groq_create = (\<lambda>_. Inl err429),
      gemini_generateContent = (\<lambda>_ _. Inl err429),
      gemini_startChat = (\<lambda>_. None),
      gemini_sendMessage = (\<lambda>_ _ _. Inl err429)\<rparr>"

text \<open>Groq is rate limited; Gemini is rate limited once and then answers.\<close>

definition w_retry_ok :: World where
  "w_retry_ok =
     \<lparr>VITE_GROQ_API_KEY = Some ''gsk'', VITE_GEMINI_API_KEY = Some ''AIza'',
      groq_create = (\<lambda>_. Inl err429),
      gemini_generateContent = (\<lambda>_ _. Inr ''seen''),
      gemini_startChat = (\<lambda>_. None),
      gemini_sendMessage = (\<lambda>k _ _. if k = 0 then Inl err429 else Inr ''second try'')\<rparr>"

text \<open>No Groq key is configured; Gemini answers.\<close>

definition w_no_groq_key :: World where
  "w_no_groq_key =
     \<lparr>VITE_GROQ_API_KEY = None, VITE_GEMINI_API_KEY = Some ''AIza'',
      groq_create = (\<lambda>_. Inr (Some ''primary answer'')),
      gemini_generateContent = (\<lambda>_ _. Inr ''seen''),
      gemini_startChat = (\<lambda>_. None),
      gemini_sendMessage = (\<lambda>_ _ _. Inr ''backup answer'')\<rparr>"

text \<open>No Gemini key is configured; Groq throws.\<close>

definition w_no_gemini_key :: World where
  "w_no_gemini_key =
     \<lparr>VITE_GROQ_API_KEY = Some ''gsk'', VITE_GEMINI_API_KEY = None,
      groq_create = (\<lambda>_. Inl err500),
      gemini_generateContent = (\<lambda>_ _. Inr ''seen''),
      gemini_startChat = (\<lambda>_. None),
      gemini_sendMessage = (\<lambda>_ _ _. Inr ''backup answer'')\<rparr>"

text \<open>Both providers answer.\<close>

definition w_ok :: World where
  "w_ok =
     \<lparr>VITE_GROQ_API_KEY = Some ''gsk'', VITE_GEMINI_API_KEY = Some ''AIza'',
      groq_create = (\<lambda>_. Inr (Some ''primary answer'')),
      gemini_generateContent = (\<lambda>_ _. Inr ''seen''),
      gemini_startChat = (\<lambda>_. None),
      gemini_sendMessage = (\<lambda>_ _ _. Inr ''backup answer'')\<rparr>"

text \<open>Groq answers; the vision call throws.\<close>

definition w_vision_fails :: World where
  "w_vision_fails =
     \<lparr>VITE_GROQ_API_KEY = Some ''gsk'', VITE_GEMINI_API_KEY = Some ''AIza'',
      groq_create = (\<lambda>_. Inr (Some ''primary answer'')),
      gemini_generateContent = (\<lambda>_ _. Inl err500),
      gemini_startChat = (\<lambda>_. None),
      gemini_sendMessage = (\<lambda>_ _ _. Inr ''backup answer'')\<rparr>"

text \<open>Groq throws a server error; Gemini answers with the empty text.\<close>

definition w_fallback_empty :: World where
  "w_fallback_empty =
     \<lparr>VITE_GROQ_API_KEY = Some ''gsk'', VITE_GEMINI_API_KEY = Some ''AIza'',
      groq_create = (\<lambda>_. Inl err500),
      gemini_generateContent = (\<lambda>_ _. Inr ''seen''),
      gemini_startChat = (\<lambda>_. None),
      gemini_sendMessage = (\<lambda>_ _ _. Inr [])\<rparr>"

text \<open>
  Groq throws a server error; the Gemini client refuses a chat whose history does not
  start with a user turn, and answers otherwise.
\<close>

definition err_first_role :: JsError where
  "err_first_role = JsError (Some ''First content should be with role user, got model'') None"

definition w_strict_chat :: World where
  "w_strict_chat =
     \<lparr>VITE_GROQ_API_KEY = Some ''gsk'', VITE_GEMINI_API_KEY = Some ''AIza'',
      groq_create = (\<lambda>_. Inl err500),
      gemini_generateContent = (\<lambda>_ _. Inr ''seen''),
      gemini_startChat =
        (\<lambda>chat. case gc_history chat of
                  [] \<Rightarrow> None
                | GeminiTurn r _ # _ \<Rightarrow> if r = ''user'' then None else Some err_first_role),
      gemini_sendMessage = (\<lambda>_ _ _. Inr ''backup answer'')\<rparr>"

definition png :: Attachment where
  "png = \<lparr>att_content = ''data:image/png;base64,iVBORw0KGgo='', att_type = IMAGE,
          att_mimeType = None\<rparr>"

definition code_file :: Attachment where
  "code_file = \<lparr>att_content = ''print(1)'', att_type = TEXT, att_mimeType = None\<rparr>"

definition two_commas :: Attachment where
  "two_commas = \<lparr>att_content = ''data:image/png;name=a,b;base64,iVBORw0KGgo='', att_type = IMAGE,
                 att_mimeType = Some ''image/png''\<rparr>"

definition history1 :: "Message list" where
  "history1 =
     [\<lparr>msg_role = USER, msg_content = ''see my file'', msg_attachment = Some code_file\<rparr>,
      \<lparr>msg_role = ASSISTANT, msg_content = ''It prints 1.'', msg_attachment = None\<rparr>]"

definition history2 :: "Message list" where
  "history2 =
     [\<lparr>msg_role = ASSISTANT, msg_content = ''Welcome.'', msg_attachment = None\<rparr>,
      \<lparr>msg_role = USER, msg_content = ''hello'', msg_attachment = None\<rparr>]"

section \<open>The retry loops in closed form\<close>

text \<open>
  Started at counter \<open>a\<close>, a loop whose next \<open>n\<close> sends are rate limited, with
  \<open>a + n\<close> within the budget, and whose send \<open>a + n\<close> is the last of the budget or is
  not rate limited, performs \<open>retryTrace n\<close> and ends with the answer to send
  \<open>a + n\<close>, returned or thrown as it is.
\<close>

lemma fallbackLoop_closed:
  "a + n \<le> maxRetries \<Longrightarrow>
   (\<forall>k. a \<le> k \<and> k < a + n \<longrightarrow> rateLimited (gemini_sendMessage w k chat prompt)) \<Longrightarrow>
   a + n = maxRetries \<or> \<not> rateLimited (gemini_sendMessage w (a + n) chat prompt) \<Longrightarrow>
   fallbackLoop w chat prompt maxRetries a st =
     (st\<lparr>statusMessage := (if n = 0 then statusMessage st
                             else Some ''Server busy. Retrying backup connection...''),
         effects := effects st @ retryTrace n chat prompt\<rparr>,
      gemini_sendMessage w (a + n) chat prompt)"
proof (induction n arbitrary: a st)
  case 0
  then show ?case
    by (subst fallbackLoop.simps)
       (auto simp: Let_def rateLimited_def retryTrace_def perform_def split: sum.splits)
next
  case (Suc n)
  have rl: "rateLimited (gemini_sendMessage w a chat prompt)" using Suc.prems(2) by simp
  have lt: "a < maxRetries" using Suc.prems(1) by simp
  have IH: "fallbackLoop w chat prompt maxRetries (Suc a) st' =
     (st'\<lparr>statusMessage := (if n = 0 then statusMessage st'
                              else Some ''Server busy. Retrying backup connection...''),
          effects := effects st' @ retryTrace n chat prompt\<rparr>,
      gemini_sendMessage w (Suc a + n) chat prompt)" for st'
    using Suc.IH[of "Suc a" st'] Suc.prems by auto
  show ?case using rl lt
    by (subst fallbackLoop.simps)
       (auto simp: IH Let_def rateLimited_def retryTrace_def perform_def split: sum.splits)
qed

lemma geminiLoop_closed:
  "a + n \<le> maxRetries \<Longrightarrow>
   (\<forall>k. a \<le> k \<and> k < a + n \<longrightarrow> rateLimited (gemini_sendMessage w k chat prompt)) \<Longrightarrow>
   a + n = maxRetries \<or> \<not> rateLimited (gemini_sendMessage w (a + n) chat prompt) \<Longrightarrow>
   geminiLoop w chat prompt maxRetries a st =
     (st\<lparr>statusMessage := (if n = 0 then statusMessage st else Some ''Retrying now...''),
         effects := effects st @ retryTrace n chat prompt\<rparr>,
      gemini_sendMessage w (a + n) chat prompt)"
proof (induction n arbitrary: a st)
  case 0
  then show ?case
    by (subst geminiLoop.simps)
       (auto simp: Let_def rateLimited_def retryTrace_def perform_def split: sum.splits)
next
  case (Suc n)
  have rl: "rateLimited (gemini_sendMessage w a chat prompt)" using Suc.prems(2) by simp
  have lt: "a < maxRetries" using Suc.prems(1) by simp
  have IH: "geminiLoop w chat prompt maxRetries (Suc a) st' =
     (st'\<lparr>statusMessage := (if n = 0 then statusMessage st' else Some ''Retrying now...''),
          effects := effects st' @ retryTrace n chat prompt\<rparr>,
      gemini_sendMessage w (Suc a + n) chat prompt)" for st'
    using Suc.IH[of "Suc a" st'] Suc.prems by auto
  show ?case using rl lt
    by (subst geminiLoop.simps)
       (auto simp: IH Let_def rateLimited_def retryTrace_def perform_def split: sum.splits)
qed

section \<open>Retry policy\<close>

text \<open>
  C7. In both retry loops (the fallback of \<^verbatim>\<open>useAI\<close> and \<^verbatim>\<open>useGemini\<close>), let the first
  \<open>n\<close> sends be rate limited (a 429 in the message or the status), with \<open>n\<close> within
  \<open>maxRetries\<close>, and let send \<open>n\<close> be the last the budget allows or not rate limited.
  Then the effects are exactly: the request, and \<open>n\<close> times a wait of 3000 ms followed by
  the same request with the same chat and prompt; the loop ends with the answer to send
  \<open>n\<close>. So every rate-limited failure with budget left is followed by a three-second
  wait and an unchanged retry, at most \<open>maxRetries\<close> times, and a failure that is not rate
  limited is thrown at once: no wait follows the request that raised it.
\<close>

theorem C7_retry_policy:
  assumes budget: "n \<le> maxRetries"
      and limited: "\<forall>k. k < n \<longrightarrow> rateLimited (gemini_sendMessage w k chat prompt)"
      and stops: "n = maxRetries \<or> \<not> rateLimited (gemini_sendMessage w n chat prompt)"
  shows "snd (fallbackLoop w chat prompt maxRetries 0 st) = gemini_sendMessage w n chat prompt
       \<and> effects (fst (fallbackLoop w chat prompt maxRetries 0 st))
           = effects st @ retryTrace n chat prompt
       \<and> snd (geminiLoop w chat prompt maxRetries 0 st) = gemini_sendMessage w n chat prompt
       \<and> effects (fst (geminiLoop w chat prompt maxRetries 0 st))
           = effects st @ retryTrace n chat prompt"
  using fallbackLoop_closed[of 0 n maxRetries w chat prompt st]
        geminiLoop_closed[of 0 n maxRetries w chat prompt st] assms
  by simp

lemma retryTrace_0: "retryTrace 0 c p = [ChatSendMessage c p]"
  by (simp add: retryTrace_def)

lemma retryTrace_1: "retryTrace (Suc 0) c p = [ChatSendMessage c p, SetTimeout 3000, ChatSendMessage c p]"
  by (simp add: retryTrace_def)

theorem C7_retry_policy_witness:
  "snd (fallbackLoop w_retry_ok (fallbackChat ''s'' []) ''hi'' 1 0 st_idle) = Inr ''second try''
   \<and> effects (fst (fallbackLoop w_retry_ok (fallbackChat ''s'' []) ''hi'' 1 0 st_idle))
       = [ChatSendMessage (fallbackChat ''s'' []) ''hi'', SetTimeout 3000,
          ChatSendMessage (fallbackChat ''s'' []) ''hi'']
   \<and> snd (geminiLoop w_retry_ok (fallbackChat ''s'' []) ''hi'' 1 0 st_idle) = Inr ''second try''
   \<and> effects (fst (geminiLoop w_retry_ok (fallbackChat ''s'' []) ''hi'' 1 0 st_idle))
       = [ChatSendMessage (fallbackChat ''s'' []) ''hi'', SetTimeout 3000,
          ChatSendMessage (fallbackChat ''s'' []) ''hi'']"
proof -
  have b: "(1::nat) \<le> 1" by simp
  have l: "\<forall>k. k < (1::nat) \<longrightarrow>
             rateLimited (gemini_sendMessage w_retry_ok k (fallbackChat ''s'' []) ''hi'')"
    by (simp add: w_retry_ok_def rateLimited_def err429_def is429_def)
  have s: "(1::nat) = 1 \<or>
           \<not> rateLimited (gemini_sendMessage w_retry_ok 1 (fallbackChat ''s'' []) ''hi'')"
    by simp
  from C7_retry_policy[OF b l s, of st_idle] show ?thesis
    by (simp add: w_retry_ok_def st_idle_def retryTrace_1)
qed

text \<open>
  C4, as the code has it. With \<open>maxRetries = 1\<close> and a provider that is rate limited on
  every send, both retry loops make exactly two requests, with one wait of 3000 ms
  between them, and then throw the rate-limit error of the second request itself. The
  statement after the loop that would throw a "Max retries exceeded" error is not
  reached: the second failure finds \<open>attempt < maxRetries\<close> false and is rethrown from
  inside the loop.
\<close>

theorem C4_exhaustion_rethrows:
  assumes always: "\<forall>k. rateLimited (gemini_sendMessage w k chat prompt)"
  shows "effects (fst (fallbackLoop w chat prompt 1 0 st))
           = effects st @ [ChatSendMessage chat prompt, SetTimeout 3000, ChatSendMessage chat prompt]
       \<and> snd (fallbackLoop w chat prompt 1 0 st) = gemini_sendMessage w 1 chat prompt
       \<and> effects (fst (geminiLoop w chat prompt 1 0 st))
           = effects st @ [ChatSendMessage chat prompt, SetTimeout 3000, ChatSendMessage chat prompt]
       \<and> snd (geminiLoop w chat prompt 1 0 st) = gemini_sendMessage w 1 chat prompt
       \<and> (\<exists>e. gemini_sendMessage w 1 chat prompt = Inl e \<and> is429 e)"
proof -
  have l: "\<forall>k. 0 \<le> k \<and> k < 0 + 1 \<longrightarrow> rateLimited (gemini_sendMessage w k chat prompt)"
    using always by simp
  have f: "fallbackLoop w chat prompt 1 0 st =
     (st\<lparr>statusMessage := Some ''Server busy. Retrying backup connection...'',
         effects := effects st @ retryTrace 1 chat prompt\<rparr>,
      gemini_sendMessage w 1 chat prompt)"
    using fallbackLoop_closed[of 0 1 1 w chat prompt st] l by simp
  have g: "geminiLoop w chat prompt 1 0 st =
     (st\<lparr>statusMessage := Some ''Retrying now...'',
         effects := effects st @ retryTrace 1 chat prompt\<rparr>,
      gemini_sendMessage w 1 chat prompt)"
    using geminiLoop_closed[of 0 1 1 w chat prompt st] l by simp
  have e: "\<exists>e. gemini_sendMessage w 1 chat prompt = Inl e \<and> is429 e"
    using always[rule_format, of 1] by (auto simp: rateLimited_def split: sum.splits)
  show ?thesis using f g e by (simp add: retryTrace_1)
qed

theorem C4_exhaustion_rethrows_witness:
  "snd (fallbackLoop w_all429 (fallbackChat ''s'' []) ''hi'' 1 0 st_idle) = Inl err429
   \<and> effects (fst (fallbackLoop w_all429 (fallbackChat ''s'' []) ''hi'' 1 0 st_idle))
       = [ChatSendMessage (fallbackChat ''s'' []) ''hi'', SetTimeout 3000,
          ChatSendMessage (fallbackChat ''s'' []) ''hi'']
   \<and> snd (geminiLoop w_all429 (fallbackChat ''s'' []) ''hi'' 1 0 st_idle) = Inl err429
   \<and> effects (fst (geminiLoop w_all429 (fallbackChat ''s'' []) ''hi'' 1 0 st_idle))
       = [ChatSendMessage (fallbackChat ''s'' []) ''hi'', SetTimeout 3000,
          ChatSendMessage (fallbackChat ''s'' []) ''hi'']"
proof -
  have a: "\<forall>k. rateLimited (gemini_sendMessage w_all429 k (fallbackChat ''s'' []) ''hi'')"
    by (simp add: w_all429_def rateLimited_def err429_def is429_def)
  from C4_exhaustion_rethrows[OF a, where st = st_idle]
  show ?thesis
    by (simp add: w_all429_def st_idle_def)
qed

text \<open>
  With every provider rate limited on every call, \<^verbatim>\<open>sendMessage\<close> of either hook throws
  the provider's 429 error, which is not the "Max retries exceeded" error.
\<close>

theorem C4_counterexample:
  "snd (sendMessage sv0 w_all429 st_idle ''hi'' GENERAL [] None) = Inl err429
   \<and> snd (useGemini_sendMessage sv0 w_all429 st_idle ''hi'' GENERAL []) = Inl err429
   \<and> is429 err429
   \<and> err429 \<noteq> Error ''Max retries exceeded on fallback.''
   \<and> err429 \<noteq> Error ''Max retries exceeded.''"
  by (simp add: sendMessage_def useGemini_sendMessage_def hasImage_def groqRoute_def
        geminiFallback_def w_all429_def falsy_def Let_def perform_def fallbackLoop.simps
        geminiLoop.simps err429_def is429_def Error_def st_idle_def)

section \<open>The routes of sendMessage\<close>

lemma groqRoute_no_key:
  "falsy (VITE_GROQ_API_KEY w) \<Longrightarrow>
   groqRoute w st si text prev att = (st, Inl (Error ''Groq API Key missing''))"
  by (simp add: groqRoute_def)

lemma groqRoute_fails:
  "\<not> falsy (VITE_GROQ_API_KEY w) \<Longrightarrow>
   primaryFails (groq_create w (groqRequest si text prev att)) \<Longrightarrow>
   \<exists>e. groqRoute w st si text prev att
        = (perform (GroqCreate (groqRequest si text prev att)) st, Inl e)"
  by (auto simp: groqRoute_def primaryFails_def Let_def split: sum.splits option.splits)

lemma groqRoute_ok:
  "\<not> falsy (VITE_GROQ_API_KEY w) \<Longrightarrow>
   groq_create w (groqRequest si text prev att) = Inr (Some r) \<Longrightarrow> r \<noteq> [] \<Longrightarrow>
   groqRoute w st si text prev att
     = (perform (GroqCreate (groqRequest si text prev att)) st, Inr r)"
  by (simp add: groqRoute_def Let_def)

lemma groqRoute_effects:
  "effects (fst (groqRoute w st si text prev att))
     = effects st @ (if falsy (VITE_GROQ_API_KEY w) then []
                     else [GroqCreate (groqRequest si text prev att)])"
  by (simp add: groqRoute_def Let_def perform_def split: sum.splits option.splits)

lemma groqRoute_cells:
  "isLoading (fst (groqRoute w st si text prev att)) = isLoading st
   \<and> error (fst (groqRoute w st si text prev att)) = error st
   \<and> statusMessage (fst (groqRoute w st si text prev att)) = statusMessage st"
  by (simp add: groqRoute_def Let_def perform_def split: sum.splits option.splits)

text \<open>How often the fallback of \<^verbatim>\<open>useAI\<close> retries: once if its first send is rate limited.\<close>

lemma fallbackLoop_budget_1:
  "fallbackLoop w chat prompt (Suc 0) 0 st =
     (let n = (if rateLimited (gemini_sendMessage w 0 chat prompt) then Suc 0 else 0) in
      (st\<lparr>statusMessage := (if n = 0 then statusMessage st
                              else Some ''Server busy. Retrying backup connection...''),
          effects := effects st @ retryTrace n chat prompt\<rparr>,
       gemini_sendMessage w n chat prompt))"
proof (cases "rateLimited (gemini_sendMessage w 0 chat prompt)")
  case True
  then show ?thesis
    using fallbackLoop_closed[of 0 1 1 w chat prompt st] by simp
next
  case False
  then show ?thesis
    using fallbackLoop_closed[of 0 0 1 w chat prompt st] by simp
qed

lemma geminiFallback_no_key:
  "falsy (VITE_GEMINI_API_KEY w) \<Longrightarrow>
   geminiFallback w st si text prev att =
     (st\<lparr>statusMessage := Some ''Traffic high. Switching to backup AI...'',
         error := Some ''Gemini API Key missing''\<rparr>,
      Inl (Error ''Gemini API Key missing''))"
  by (simp add: geminiFallback_def Let_def Error_def or_else_def)

lemma geminiFallback_startChat_throws:
  "\<not> falsy (VITE_GEMINI_API_KEY w) \<Longrightarrow>
   gemini_startChat w (fallbackChat si prev) = Some e \<Longrightarrow>
   geminiFallback w st si text prev att =
     (st\<lparr>statusMessage := Some ''Traffic high. Switching to backup AI...'',
         error := Some (or_else (message e) ''All AI services are currently busy.'')\<rparr>,
      Inl e)"
  by (simp add: geminiFallback_def Let_def)

lemma geminiFallback_result:
  "\<not> falsy (VITE_GEMINI_API_KEY w) \<Longrightarrow>
   gemini_startChat w (fallbackChat si prev) = None \<Longrightarrow>
   snd (geminiFallback w st si text prev att) =
     gemini_sendMessage w
       (if rateLimited (gemini_sendMessage w 0 (fallbackChat si prev) (fallbackPrompt text att))
        then 1 else 0)
       (fallbackChat si prev) (fallbackPrompt text att)"
  by (simp add: geminiFallback_def Let_def fallbackLoop_budget_1 split: sum.splits)

lemma geminiFallback_effects:
  "\<not> falsy (VITE_GEMINI_API_KEY w) \<Longrightarrow>
   gemini_startChat w (fallbackChat si prev) = None \<Longrightarrow>
   effects (fst (geminiFallback w st si text prev att)) =
     effects st @
     retryTrace
       (if rateLimited (gemini_sendMessage w 0 (fallbackChat si prev) (fallbackPrompt text att))
        then 1 else 0)
       (fallbackChat si prev) (fallbackPrompt text att)"
  by (simp add: geminiFallback_def Let_def fallbackLoop_budget_1 split: sum.splits)

lemma geminiFallback_isLoading:
  "isLoading (fst (geminiFallback w st si text prev att)) = isLoading st"
  by (simp add: geminiFallback_def Let_def fallbackLoop_budget_1 split: sum.splits option.splits)

lemma sendMessage_image:
  "hasImage att \<Longrightarrow>
   sendMessage sv w st0 text subject prev att =
     visionRoute w (st0\<lparr>isLoading := True, error := None, statusMessage := None\<rparr>)
       (systemInstruction sv subject) text att"
  by (simp add: sendMessage_def Let_def)

lemma sendMessage_text:
  "\<not> hasImage att \<Longrightarrow>
   sendMessage sv w st0 text subject prev att =
     (case groqRoute w (st0\<lparr>isLoading := True, error := None, statusMessage := None\<rparr>)
             (systemInstruction sv subject) text prev att of
        (st1, Inr response) \<Rightarrow> (st1, Inr response)
      | (st1, Inl groqError) \<Rightarrow>
          geminiFallback w st1 (systemInstruction sv subject) text prev att)"
  by (simp add: sendMessage_def Let_def)

lemma visionRoute_result:
  "snd (visionRoute w st si text att) =
     (if falsy (VITE_GEMINI_API_KEY w) then Inl (Error ''Gemini API Key missing'')
      else gemini_generateContent w (flashModel si) (promptParts text att))"
  by (simp add: visionRoute_def Let_def split: sum.splits)

lemma visionRoute_effects:
  "effects (fst (visionRoute w st si text att)) =
     effects st @ (if falsy (VITE_GEMINI_API_KEY w) then []
                   else [GenerateContent (flashModel si) (promptParts text att)])"
  by (simp add: visionRoute_def Let_def perform_def split: sum.splits)

lemma visionRoute_isLoading:
  "isLoading (fst (visionRoute w st si text att)) = isLoading st"
  by (simp add: visionRoute_def Let_def perform_def split: sum.splits)

lemma visionRoute_error:
  "snd (visionRoute w st si text att) = Inl e \<Longrightarrow>
   error (fst (visionRoute w st si text att)) = Some (or_else (message e) ''Failed to analyze image.'')"
  by (auto simp: visionRoute_def Let_def perform_def split: sum.splits if_splits)

section \<open>Routing\<close>

text \<open>
  C1, as the code has it. For a request without an image attachment: if the primary
  fails (no Groq key, or the Groq call throws, or its response is undefined or empty)
  and the fallback succeeds (the Gemini key is set, \<^verbatim>\<open>startChat\<close> accepts the session,
  and the chat answers with \<open>t\<close> on the first send, or is rate limited on the first send
  and answers with \<open>t\<close> on the second), \<^verbatim>\<open>sendMessage\<close> returns \<open>t\<close> as it is, the
  empty text included: the fallback's answer is not tested for emptiness. If the primary
  answers with a non-empty text \<open>r\<close>, \<^verbatim>\<open>sendMessage\<close> returns \<open>r\<close> and the Groq call is
  the only effect. So the text returned is that of the first provider of the chain
  whose attempt succeeded, where the primary succeeds only with a non-empty text and the
  fallback with any text.
\<close>

theorem C1_first_success_is_returned:
  assumes textOnly: "\<not> hasImage att"
      and si: "si = systemInstruction sv subject"
      and request: "request = groqRequest si input prev att"
      and chat: "chat = fallbackChat si prev"
      and prompt: "prompt = fallbackPrompt input att"
  shows "((falsy (VITE_GROQ_API_KEY w) \<or> primaryFails (groq_create w request))
          \<and> \<not> falsy (VITE_GEMINI_API_KEY w)
          \<and> gemini_startChat w chat = None
          \<and> (gemini_sendMessage w 0 chat prompt = Inr t
               \<or> rateLimited (gemini_sendMessage w 0 chat prompt)
                 \<and> gemini_sendMessage w 1 chat prompt = Inr t)
          \<longrightarrow> snd (sendMessage sv w st0 input subject prev att) = Inr t)
       \<and> (\<not> falsy (VITE_GROQ_API_KEY w) \<and> groq_create w request = Inr (Some r) \<and> r \<noteq> []
          \<longrightarrow> snd (sendMessage sv w st0 input subject prev att) = Inr r
              \<and> effects (fst (sendMessage sv w st0 input subject prev att))
                  = effects st0 @ [GroqCreate request])"
proof (intro conjI impI)
  let ?st = "st0\<lparr>isLoading := True, error := None, statusMessage := None\<rparr>"
  assume h: "(falsy (VITE_GROQ_API_KEY w) \<or> primaryFails (groq_create w request))
          \<and> \<not> falsy (VITE_GEMINI_API_KEY w)
          \<and> gemini_startChat w chat = None
          \<and> (gemini_sendMessage w 0 chat prompt = Inr t
               \<or> rateLimited (gemini_sendMessage w 0 chat prompt)
                 \<and> gemini_sendMessage w 1 chat prompt = Inr t)"
  then obtain st1 e where g: "groqRoute w ?st si input prev att = (st1, Inl e)"
    using groqRoute_no_key[of w "?st" si input prev att]
          groqRoute_fails[of w si input prev att "?st"] request
    by auto
  have key: "\<not> falsy (VITE_GEMINI_API_KEY w)" using h by simp
  have sc: "gemini_startChat w (fallbackChat si prev) = None" using h chat by simp
  have "snd (geminiFallback w st1 si input prev att) = Inr t"
    using h geminiFallback_result[OF key sc, of st1 input att] chat prompt
    by (auto simp: rateLimited_def)
  then show "snd (sendMessage sv w st0 input subject prev att) = Inr t"
    using g si by (simp add: sendMessage_text[OF textOnly])
next
  let ?st = "st0\<lparr>isLoading := True, error := None, statusMessage := None\<rparr>"
  assume h: "\<not> falsy (VITE_GROQ_API_KEY w) \<and> groq_create w request = Inr (Some r) \<and> r \<noteq> []"
  then have g: "groqRoute w ?st si input prev att = (perform (GroqCreate request) ?st, Inr r)"
    using groqRoute_ok[of w si input prev att r "?st"] request by simp
  then show "snd (sendMessage sv w st0 input subject prev att) = Inr r"
    using si by (simp add: sendMessage_text[OF textOnly])
  show "effects (fst (sendMessage sv w st0 input subject prev att)) = effects st0 @ [GroqCreate request]"
    using g si by (simp add: sendMessage_text[OF textOnly] perform_def)
qed

theorem C1_first_success_is_returned_witness:
  "snd (sendMessage sv0 w_fallback_ok st_idle ''hi'' MATH history1 None) = Inr ''backup answer''
   \<and> snd (sendMessage sv0 w_retry_ok st_idle ''hi'' MATH history1 None) = Inr ''second try''
   \<and> snd (sendMessage sv0 w_fallback_empty st_idle ''hi'' MATH history1 None) = Inr []
   \<and> snd (sendMessage sv0 w_ok st_idle ''hi'' MATH history1 None) = Inr ''primary answer''"
proof -
  have t: "\<not> hasImage None" by (simp add: hasImage_def)
  note inst = C1_first_success_is_returned[OF t refl refl refl refl,
      where sv = sv0 and subject = MATH and input = "''hi''" and prev = history1 and ?st0.0 = st_idle]
  have a: "snd (sendMessage sv0 w_fallback_ok st_idle ''hi'' MATH history1 None) = Inr ''backup answer''"
    using inst[where w = w_fallback_ok and t = "''backup answer''"]
    by (simp add: w_fallback_ok_def falsy_def primaryFails_def)
  have b: "snd (sendMessage sv0 w_retry_ok st_idle ''hi'' MATH history1 None) = Inr ''second try''"
    using inst[where w = w_retry_ok and t = "''second try''"]
    by (simp add: w_retry_ok_def falsy_def primaryFails_def rateLimited_def err429_def is429_def)
  have c: "snd (sendMessage sv0 w_fallback_empty st_idle ''hi'' MATH history1 None) = Inr []"
    using inst[where w = w_fallback_empty and t = "[]"]
    by (simp add: w_fallback_empty_def falsy_def primaryFails_def)
  have d: "snd (sendMessage sv0 w_ok st_idle ''hi'' MATH history1 None) = Inr ''primary answer''"
    using inst[where w = w_ok and r = "''primary answer''"]
    by (simp add: w_ok_def falsy_def)
  from a b c d show ?thesis by simp
qed

text \<open>
  Groq throws and Gemini answers with the empty text: no provider of the chain produced
  a non-empty result, and the call returns the empty text.
\<close>

theorem C1_counterexample:
  "groq_create w_fallback_empty (groqRequest (systemInstruction sv0 GENERAL) ''hi'' [] None)
     = Inl err500
   \<and> gemini_sendMessage w_fallback_empty 0 (fallbackChat (systemInstruction sv0 GENERAL) []) ''hi''
     = Inr []
   \<and> snd (sendMessage sv0 w_fallback_empty st_idle ''hi'' GENERAL [] None) = Inr []
   \<and> error (fst (sendMessage sv0 w_fallback_empty st_idle ''hi'' GENERAL [] None)) = None
   \<and> effects (fst (sendMessage sv0 w_fallback_empty st_idle ''hi'' GENERAL [] None))
     = [GroqCreate (groqRequest (systemInstruction sv0 GENERAL) ''hi'' [] None),
        ChatSendMessage (fallbackChat (systemInstruction sv0 GENERAL) []) ''hi'']"
  by (simp add: sendMessage_def hasImage_def groqRoute_def geminiFallback_def Let_def
        fallbackLoop_budget_1 w_fallback_empty_def falsy_def rateLimited_def
        st_idle_def perform_def retryTrace_0 fallbackPrompt_def)

text \<open>
  C2. For a request with an image attachment the only effect is at most one
  \<^verbatim>\<open>generateContent\<close> request to Gemini (none when the Gemini key is missing): no Groq
  request, no chat send, no wait. The outcome of \<^verbatim>\<open>sendMessage\<close> is the outcome of that
  one call: if it throws, \<^verbatim>\<open>sendMessage\<close> throws the same error, after storing its
  message in \<open>error\<close>.
\<close>

theorem C2_image_single_hop:
  assumes img: "hasImage att"
      and si: "si = systemInstruction sv subject"
  shows "effects (fst (sendMessage sv w st0 input subject prev att))
           = effects st0 @ (if falsy (VITE_GEMINI_API_KEY w) then []
                            else [GenerateContent (flashModel si) (promptParts input att)])
       \<and> snd (sendMessage sv w st0 input subject prev att)
           = (if falsy (VITE_GEMINI_API_KEY w) then Inl (Error ''Gemini API Key missing'')
              else gemini_generateContent w (flashModel si) (promptParts input att))
       \<and> (\<forall>e. snd (sendMessage sv w st0 input subject prev att) = Inl e \<longrightarrow>
              error (fst (sendMessage sv w st0 input subject prev att))
                = Some (or_else (message e) ''Failed to analyze image.''))"
  using si visionRoute_error[of w _ si input att]
  by (simp add: sendMessage_image[OF img] visionRoute_result visionRoute_effects)

theorem C2_image_single_hop_witness:
  "effects (fst (sendMessage sv0 w_vision_fails st_idle ''what is this'' GENERAL history1 (Some png)))
     = [GenerateContent (flashModel (systemInstruction sv0 GENERAL))
          [TextPart ''what is this'', InlineData ''iVBORw0KGgo='' ''image/jpeg'']]
   \<and> snd (sendMessage sv0 w_vision_fails st_idle ''what is this'' GENERAL history1 (Some png))
       = Inl err500
   \<and> error (fst (sendMessage sv0 w_vision_fails st_idle ''what is this'' GENERAL history1 (Some png)))
       = Some ''Internal error''"
proof -
  have i: "hasImage (Some png)" by (simp add: hasImage_def png_def)
  have p: "promptParts ''what is this'' (Some png)
             = [TextPart ''what is this'', InlineData ''iVBORw0KGgo='' ''image/jpeg'']"
    by (simp add: promptParts_def png_def base64Data_def at_index_def or_else_def)
  from C2_image_single_hop[OF i refl, where sv = sv0 and w = w_vision_fails and ?st0.0 = st_idle
      and input = "''what is this''" and subject = GENERAL and prev = history1]
  show ?thesis
    by (simp add: p w_vision_fails_def falsy_def st_idle_def err500_def or_else_def)
qed

section \<open>Busy flag and status after a call\<close>

text \<open>
  \<^verbatim>\<open>sendMessage\<close> of \<^verbatim>\<open>useAI\<close> sets \<open>isLoading\<close> at its start and has no
  \<^verbatim>\<open>finally\<close>: whatever the route and the outcome, the flag is still set when the call
  is over.
\<close>

lemma sendMessage_isLoading:
  "isLoading (fst (sendMessage sv w st0 input subject prev att)) = True"
proof (cases "hasImage att")
  case True
  then show ?thesis
    by (simp add: sendMessage_image visionRoute_isLoading)
next
  case False
  let ?st = "st0\<lparr>isLoading := True, error := None, statusMessage := None\<rparr>"
  obtain st1 r where g: "groqRoute w ?st (systemInstruction sv subject) input prev att = (st1, r)"
    by (cases "groqRoute w ?st (systemInstruction sv subject) input prev att")
  have "isLoading st1 = True"
    using groqRoute_cells[of w ?st "systemInstruction sv subject" input prev att] g by simp
  then show ?thesis
    using g False by (cases r) (simp_all add: sendMessage_text geminiFallback_isLoading)
qed

text \<open>useGemini resets both cells in its finally block.\<close>

lemma useGemini_sendMessage_resets:
  "isLoading (fst (useGemini_sendMessage sv w st0 input subject prev)) = False
   \<and> statusMessage (fst (useGemini_sendMessage sv w st0 input subject prev)) = None"
  by (simp add: useGemini_sendMessage_def Let_def split: prod.splits)

text \<open>
  C3 asks that after every call, returned or thrown, the busy flag is false and the
  status is cleared. Two runs of \<^verbatim>\<open>sendMessage\<close> of \<^verbatim>\<open>useAI\<close>: a text request whose
  fallback answers returns the answer and leaves \<open>isLoading\<close> true and the status at the
  fallback notice; an image request whose provider throws raises the error and leaves
  \<open>isLoading\<close> true and the status at the image notice. The same text request through
  \<^verbatim>\<open>useGemini\<close> ends with \<open>isLoading\<close> false and no status.
\<close>

theorem C3_busy_and_status_after_return:
  "isLoading (fst (sendMessage sv0 w_fallback_ok st_idle ''hi'' MATH history1 None)) = True
   \<and> statusMessage (fst (sendMessage sv0 w_fallback_ok st_idle ''hi'' MATH history1 None))
       = Some ''Traffic high. Switching to backup AI...''
   \<and> snd (sendMessage sv0 w_fallback_ok st_idle ''hi'' MATH history1 None) = Inr ''backup answer''
   \<and> isLoading (fst (sendMessage sv0 w_vision_fails st_idle ''hi'' MATH [] (Some png))) = True
   \<and> statusMessage (fst (sendMessage sv0 w_vision_fails st_idle ''hi'' MATH [] (Some png)))
       = Some ''Analyzing image...''
   \<and> snd (sendMessage sv0 w_vision_fails st_idle ''hi'' MATH [] (Some png)) = Inl err500
   \<and> isLoading (fst (useGemini_sendMessage sv0 w_fallback_ok st_idle ''hi'' MATH history1)) = False
   \<and> statusMessage (fst (useGemini_sendMessage sv0 w_fallback_ok st_idle ''hi'' MATH history1)) = None"
proof -
  have a: "\<not> hasImage None" "hasImage (Some png)"
    by (simp_all add: hasImage_def png_def)
  have f: "fst (sendMessage sv0 w_fallback_ok st_idle ''hi'' MATH history1 None) =
        \<lparr>isLoading = True, error = None,
         statusMessage = Some ''Traffic high. Switching to backup AI...'',
         effects = [GroqCreate (groqRequest (systemInstruction sv0 MATH) ''hi'' history1 None),
                    ChatSendMessage (fallbackChat (systemInstruction sv0 MATH) history1)
                      (fallbackPrompt ''hi'' None)]\<rparr>
      \<and> snd (sendMessage sv0 w_fallback_ok st_idle ''hi'' MATH history1 None) = Inr ''backup answer''"
    by (simp add: sendMessage_text a groqRoute_def geminiFallback_def Let_def
          fallbackLoop_budget_1 w_fallback_ok_def falsy_def rateLimited_def st_idle_def
          perform_def retryTrace_0)
  have v: "fst (sendMessage sv0 w_vision_fails st_idle ''hi'' MATH [] (Some png)) =
        \<lparr>isLoading = True, error = Some ''Internal error'',
         statusMessage = Some ''Analyzing image...'',
         effects = [GenerateContent (flashModel (systemInstruction sv0 MATH))
                      (promptParts ''hi'' (Some png))]\<rparr>
      \<and> snd (sendMessage sv0 w_vision_fails st_idle ''hi'' MATH [] (Some png)) = Inl err500"
    by (simp add: sendMessage_image a visionRoute_def Let_def w_vision_fails_def falsy_def
          st_idle_def perform_def err500_def or_else_def)
  show ?thesis
    using f v useGemini_sendMessage_resets[of sv0 w_fallback_ok st_idle "''hi''" MATH history1]
    by simp
qed

section \<open>Hops of the text chain\<close>

lemma filter_retryTrace:
  "filter isGroqCall (retryTrace n c p) = []"
  by (induction n) (simp_all add: retryTrace_def)

lemma geminiFallback_no_groq:
  "filter isGroqCall (effects (fst (geminiFallback w st si input prev att)))
     = filter isGroqCall (effects st)"
proof (cases "falsy (VITE_GEMINI_API_KEY w)")
  case True
  then show ?thesis by (simp add: geminiFallback_no_key)
next
  case False
  show ?thesis
  proof (cases "gemini_startChat w (fallbackChat si prev)")
    case None
    then show ?thesis
      using False by (simp add: geminiFallback_effects filter_retryTrace)
  next
    case (Some e)
    then show ?thesis
      using False by (simp add: geminiFallback_startChat_throws)
  qed
qed

text \<open>
  C6, as the code has it. For a request without an image attachment the hook calls
  Groq's \<^verbatim>\<open>create\<close> exactly once when the Groq key is set, and not at all when it is
  missing, whatever the outcome: the hook puts no retry and no wait of its own around
  the primary hop (a retry the client library may make inside that one call is not the
  hook's). When the primary fails, rate limited or not, and the Gemini key is set, the
  hook goes to the fallback at once. If \<^verbatim>\<open>startChat\<close> accepts the session, the hook's
  next effect is the first send of the fallback, with no wait before it; only the
  fallback is retried by the hook, once, after 3000 ms, and only if its first send is
  rate limited, and the outcome is the answer to the last send. If \<^verbatim>\<open>startChat\<close>
  throws, nothing is sent and that error is the outcome.
\<close>

theorem C6_text_chain_hops:
  assumes textOnly: "\<not> hasImage att"
      and si: "si = systemInstruction sv subject"
      and request: "request = groqRequest si input prev att"
      and chat: "chat = fallbackChat si prev"
      and prompt: "prompt = fallbackPrompt input att"
  shows "filter isGroqCall (effects (fst (sendMessage sv w st0 input subject prev att)))
           = filter isGroqCall (effects st0)
             @ (if falsy (VITE_GROQ_API_KEY w) then [] else [GroqCreate request])
       \<and> (\<not> falsy (VITE_GROQ_API_KEY w) \<and> primaryFails (groq_create w request)
            \<and> \<not> falsy (VITE_GEMINI_API_KEY w) \<and> gemini_startChat w chat = None \<longrightarrow>
            effects (fst (sendMessage sv w st0 input subject prev att))
              = effects st0 @ [GroqCreate request]
                @ retryTrace (if rateLimited (gemini_sendMessage w 0 chat prompt) then 1 else 0)
                    chat prompt
            \<and> snd (sendMessage sv w st0 input subject prev att)
              = gemini_sendMessage w
                  (if rateLimited (gemini_sendMessage w 0 chat prompt) then 1 else 0) chat prompt)
       \<and> (\<not> falsy (VITE_GROQ_API_KEY w) \<and> primaryFails (groq_create w request)
            \<and> \<not> falsy (VITE_GEMINI_API_KEY w) \<and> gemini_startChat w chat = Some e \<longrightarrow>
            effects (fst (sendMessage sv w st0 input subject prev att))
              = effects st0 @ [GroqCreate request]
            \<and> snd (sendMessage sv w st0 input subject prev att) = Inl e)"
proof (intro conjI impI)
  let ?st = "st0\<lparr>isLoading := True, error := None, statusMessage := None\<rparr>"
  obtain st1 r where g: "groqRoute w ?st si input prev att = (st1, r)"
    by (cases "groqRoute w ?st si input prev att")
  have e1: "effects st1 = effects st0
              @ (if falsy (VITE_GROQ_API_KEY w) then [] else [GroqCreate request])"
    using groqRoute_effects[of w ?st si input prev att] g request by simp
  show "filter isGroqCall (effects (fst (sendMessage sv w st0 input subject prev att)))
           = filter isGroqCall (effects st0)
             @ (if falsy (VITE_GROQ_API_KEY w) then [] else [GroqCreate request])"
    using g e1 si
    by (cases r) (simp_all add: sendMessage_text[OF textOnly] geminiFallback_no_groq)
next
  let ?st = "st0\<lparr>isLoading := True, error := None, statusMessage := None\<rparr>"
  assume h: "\<not> falsy (VITE_GROQ_API_KEY w) \<and> primaryFails (groq_create w request)
            \<and> \<not> falsy (VITE_GEMINI_API_KEY w) \<and> gemini_startChat w chat = None"
  then have key: "\<not> falsy (VITE_GROQ_API_KEY w)" by simp
  obtain e where g: "groqRoute w ?st si input prev att
        = (perform (GroqCreate request) ?st, Inl e)"
    using h groqRoute_fails[OF key, of si input prev att ?st] request by auto
  have gk: "\<not> falsy (VITE_GEMINI_API_KEY w)" using h by simp
  have sc: "gemini_startChat w (fallbackChat (systemInstruction sv subject) prev) = None"
    using h chat si by simp
  show "effects (fst (sendMessage sv w st0 input subject prev att))
              = effects st0 @ [GroqCreate request]
                @ retryTrace (if rateLimited (gemini_sendMessage w 0 chat prompt) then 1 else 0)
                    chat prompt"
    using g si chat prompt
    by (simp add: sendMessage_text[OF textOnly] geminiFallback_effects[OF gk sc] perform_def)
  show "snd (sendMessage sv w st0 input subject prev att)
              = gemini_sendMessage w
                  (if rateLimited (gemini_sendMessage w 0 chat prompt) then 1 else 0) chat prompt"
    using g si chat prompt
    by (simp add: sendMessage_text[OF textOnly] geminiFallback_result[OF gk sc])
next
  let ?st = "st0\<lparr>isLoading := True, error := None, statusMessage := None\<rparr>"
  assume h: "\<not> falsy (VITE_GROQ_API_KEY w) \<and> primaryFails (groq_create w request)
            \<and> \<not> falsy (VITE_GEMINI_API_KEY w) \<and> gemini_startChat w chat = Some e"
  then have key: "\<not> falsy (VITE_GROQ_API_KEY w)" by simp
  obtain e' where g: "groqRoute w ?st si input prev att
        = (perform (GroqCreate request) ?st, Inl e')"
    using h groqRoute_fails[OF key, of si input prev att ?st] request by auto
  have gk: "\<not> falsy (VITE_GEMINI_API_KEY w)" using h by simp
  have sc: "gemini_startChat w (fallbackChat (systemInstruction sv subject) prev) = Some e"
    using h chat si by simp
  show "effects (fst (sendMessage sv w st0 input subject prev att))
              = effects st0 @ [GroqCreate request]"
    using g si
    by (simp add: sendMessage_text[OF textOnly] geminiFallback_startChat_throws[OF gk sc]
          perform_def)
  show "snd (sendMessage sv w st0 input subject prev att) = Inl e"
    using g si
    by (simp add: sendMessage_text[OF textOnly] geminiFallback_startChat_throws[OF gk sc])
qed

theorem C6_text_chain_hops_witness:
  "filter isGroqCall (effects (fst (sendMessage sv0 w_retry_ok st_idle ''hi'' GENERAL [] None)))
     = [GroqCreate (groqRequest (systemInstruction sv0 GENERAL) ''hi'' [] None)]
   \<and> filter isGroqCall (effects (fst (sendMessage sv0 w_no_groq_key st_idle ''hi'' GENERAL [] None)))
     = []
   \<and> effects (fst (sendMessage sv0 w_retry_ok st_idle ''hi'' GENERAL [] None))
     = [GroqCreate (groqRequest (systemInstruction sv0 GENERAL) ''hi'' [] None),
        ChatSendMessage (fallbackChat (systemInstruction sv0 GENERAL) []) ''hi'',
        SetTimeout 3000,
        ChatSendMessage (fallbackChat (systemInstruction sv0 GENERAL) []) ''hi'']
   \<and> snd (sendMessage sv0 w_retry_ok st_idle ''hi'' GENERAL [] None) = Inr ''second try''
   \<and> effects (fst (sendMessage sv0 w_strict_chat st_idle ''hi'' GENERAL history2 None))
     = [GroqCreate (groqRequest (systemInstruction sv0 GENERAL) ''hi'' history2 None)]
   \<and> snd (sendMessage sv0 w_strict_chat st_idle ''hi'' GENERAL history2 None)
     = Inl err_first_role"
proof -
  have t: "\<not> hasImage None" by (simp add: hasImage_def)
  note inst = C6_text_chain_hops[OF t refl refl refl refl, where sv = sv0 and subject = GENERAL
      and input = "''hi''" and ?st0.0 = st_idle]
  have f: "\<not> falsy (VITE_GROQ_API_KEY w_retry_ok)
           \<and> primaryFails (groq_create w_retry_ok
             (groqRequest (systemInstruction sv0 GENERAL) ''hi'' [] None))
           \<and> \<not> falsy (VITE_GEMINI_API_KEY w_retry_ok)
           \<and> gemini_startChat w_retry_ok (fallbackChat (systemInstruction sv0 GENERAL) []) = None"
    by (simp add: falsy_def w_retry_ok_def primaryFails_def)
  have r: "rateLimited (gemini_sendMessage w_retry_ok 0 c p)" for c p
    by (simp add: w_retry_ok_def rateLimited_def err429_def is429_def)
  have s: "\<not> falsy (VITE_GROQ_API_KEY w_strict_chat)
           \<and> primaryFails (groq_create w_strict_chat
             (groqRequest (systemInstruction sv0 GENERAL) ''hi'' history2 None))
           \<and> \<not> falsy (VITE_GEMINI_API_KEY w_strict_chat)
           \<and> gemini_startChat w_strict_chat (fallbackChat (systemInstruction sv0 GENERAL) history2)
               = Some err_first_role"
    by (simp add: falsy_def w_strict_chat_def primaryFails_def fallbackChat_def
          geminiHistory_def history2_def)
  have k: "falsy (VITE_GROQ_API_KEY w_no_groq_key)" "\<not> falsy (VITE_GROQ_API_KEY w_retry_ok)"
    by (simp_all add: falsy_def w_no_groq_key_def w_retry_ok_def)
  have 1: "filter isGroqCall (effects (fst (sendMessage sv0 w_retry_ok st_idle ''hi'' GENERAL [] None)))
     = [GroqCreate (groqRequest (systemInstruction sv0 GENERAL) ''hi'' [] None)]"
    using inst[where w = w_retry_ok and prev = "[]", THEN conjunct1] k
    by (simp add: st_idle_def)
  have 2: "filter isGroqCall (effects (fst (sendMessage sv0 w_no_groq_key st_idle ''hi'' GENERAL [] None)))
     = []"
    using inst[where w = w_no_groq_key and prev = "[]", THEN conjunct1] k
    by (simp add: st_idle_def)
  have 3: "effects (fst (sendMessage sv0 w_retry_ok st_idle ''hi'' GENERAL [] None))
     = [GroqCreate (groqRequest (systemInstruction sv0 GENERAL) ''hi'' [] None),
        ChatSendMessage (fallbackChat (systemInstruction sv0 GENERAL) []) ''hi'',
        SetTimeout 3000,
        ChatSendMessage (fallbackChat (systemInstruction sv0 GENERAL) []) ''hi'']
     \<and> snd (sendMessage sv0 w_retry_ok st_idle ''hi'' GENERAL [] None) = Inr ''second try''"
    using inst[where w = w_retry_ok and prev = "[]", THEN conjunct2, THEN conjunct1,
        rule_format, OF f] r
    by (simp add: st_idle_def retryTrace_1 fallbackPrompt_def w_retry_ok_def)
  have 4: "effects (fst (sendMessage sv0 w_strict_chat st_idle ''hi'' GENERAL history2 None))
     = [GroqCreate (groqRequest (systemInstruction sv0 GENERAL) ''hi'' history2 None)]
     \<and> snd (sendMessage sv0 w_strict_chat st_idle ''hi'' GENERAL history2 None)
     = Inl err_first_role"
    using inst[where w = w_strict_chat and prev = history2 and e = err_first_role,
        THEN conjunct2, THEN conjunct2, rule_format, OF s]
    by (simp add: st_idle_def)
  from 1 2 3 4 show ?thesis by simp
qed

text \<open>
  The hook's call of \<^verbatim>\<open>create\<close> throws a 429 error: the hook makes that call once, and
  its next effect is the Gemini send. The wait and the second send are the fallback's.
\<close>

theorem C6_counterexample:
  "groq_create w_all429 (groqRequest (systemInstruction sv0 GENERAL) ''hi'' [] None) = Inl err429
   \<and> is429 err429
   \<and> effects (fst (sendMessage sv0 w_all429 st_idle ''hi'' GENERAL [] None))
     = [GroqCreate (groqRequest (systemInstruction sv0 GENERAL) ''hi'' [] None),
        ChatSendMessage (fallbackChat (systemInstruction sv0 GENERAL) []) ''hi'',
        SetTimeout 3000,
        ChatSendMessage (fallbackChat (systemInstruction sv0 GENERAL) []) ''hi'']"
  by (simp add: sendMessage_def hasImage_def groqRoute_def geminiFallback_def Let_def
        fallbackLoop_budget_1 w_all429_def falsy_def rateLimited_def err429_def is429_def
        st_idle_def perform_def retryTrace_1 fallbackPrompt_def)

section \<open>Missing keys\<close>

lemma groqRoute_no_gemini:
  "filter isGeminiCall (effects (fst (groqRoute w st si input prev att)))
     = filter isGeminiCall (effects st)
   \<and> filter isWait (effects (fst (groqRoute w st si input prev att)))
     = filter isWait (effects st)"
  by (simp add: groqRoute_effects)

text \<open>
  C5, as the code has it. A missing key is found before any request to its provider.
  With the Groq key missing on a text request no Groq request is made, and the call goes
  on as the Gemini fallback does from the reset state: the missing key is one more
  failure of the primary, not an error of the call. With the Gemini key missing, on the
  image route or once the primary has failed, \<^verbatim>\<open>sendMessage\<close> throws
  \<^verbatim>\<open>Error("Gemini API Key missing")\<close>, stores that message in \<open>error\<close>, and makes no
  Gemini request and no wait.
\<close>

theorem C5_missing_key:
  assumes si: "si = systemInstruction sv subject"
      and request: "request = groqRequest si input prev att"
      and reset: "st = st0\<lparr>isLoading := True, error := None, statusMessage := None\<rparr>"
  shows "(\<not> hasImage att \<and> falsy (VITE_GROQ_API_KEY w) \<longrightarrow>
            sendMessage sv w st0 input subject prev att = geminiFallback w st si input prev att
            \<and> filter isGroqCall (effects (fst (sendMessage sv w st0 input subject prev att)))
                = filter isGroqCall (effects st0))
       \<and> (falsy (VITE_GEMINI_API_KEY w)
            \<and> (hasImage att \<or> falsy (VITE_GROQ_API_KEY w) \<or> primaryFails (groq_create w request))
          \<longrightarrow>
            snd (sendMessage sv w st0 input subject prev att)
              = Inl (Error ''Gemini API Key missing'')
            \<and> error (fst (sendMessage sv w st0 input subject prev att))
              = Some ''Gemini API Key missing''
            \<and> filter isGeminiCall (effects (fst (sendMessage sv w st0 input subject prev att)))
              = filter isGeminiCall (effects st0)
            \<and> filter isWait (effects (fst (sendMessage sv w st0 input subject prev att)))
              = filter isWait (effects st0))"
proof (intro conjI impI)
  assume h: "\<not> hasImage att \<and> falsy (VITE_GROQ_API_KEY w)"
  then show a: "sendMessage sv w st0 input subject prev att = geminiFallback w st si input prev att"
    using si reset by (simp add: sendMessage_text groqRoute_no_key)
  show "filter isGroqCall (effects (fst (sendMessage sv w st0 input subject prev att)))
                = filter isGroqCall (effects st0)"
    using reset by (simp add: a geminiFallback_no_groq)
next
  assume h: "falsy (VITE_GEMINI_API_KEY w)
            \<and> (hasImage att \<or> falsy (VITE_GROQ_API_KEY w) \<or> primaryFails (groq_create w request))"
  then have gk: "falsy (VITE_GEMINI_API_KEY w)" by simp
  have all: "snd (sendMessage sv w st0 input subject prev att)
              = Inl (Error ''Gemini API Key missing'')
            \<and> error (fst (sendMessage sv w st0 input subject prev att))
              = Some ''Gemini API Key missing''
            \<and> filter isGeminiCall (effects (fst (sendMessage sv w st0 input subject prev att)))
              = filter isGeminiCall (effects st0)
            \<and> filter isWait (effects (fst (sendMessage sv w st0 input subject prev att)))
              = filter isWait (effects st0)"
  proof (cases "hasImage att")
    case True
    then show ?thesis
      using gk
      by (simp add: sendMessage_image visionRoute_def Let_def Error_def or_else_def)
  next
    case False
    with h have pf: "falsy (VITE_GROQ_API_KEY w) \<or> primaryFails (groq_create w request)" by simp
    obtain st1 e where g: "groqRoute w st si input prev att = (st1, Inl e)"
      using pf groqRoute_no_key[of w st si input prev att]
            groqRoute_fails[of w si input prev att st] request
      by auto
    have e1: "filter isGeminiCall (effects st1) = filter isGeminiCall (effects st0)
              \<and> filter isWait (effects st1) = filter isWait (effects st0)"
      using groqRoute_no_gemini[of w st si input prev att] g reset by simp
    show ?thesis
      using g e1 si reset False
      by (simp add: sendMessage_text geminiFallback_no_key[OF gk])
  qed
  from all show "snd (sendMessage sv w st0 input subject prev att)
              = Inl (Error ''Gemini API Key missing'')" by simp
  from all show "error (fst (sendMessage sv w st0 input subject prev att))
              = Some ''Gemini API Key missing''" by simp
  from all show "filter isGeminiCall (effects (fst (sendMessage sv w st0 input subject prev att)))
              = filter isGeminiCall (effects st0)" by simp
  from all show "filter isWait (effects (fst (sendMessage sv w st0 input subject prev att)))
              = filter isWait (effects st0)" by simp
qed

theorem C5_missing_key_witness:
  "sendMessage sv0 w_no_groq_key st_idle ''hi'' GENERAL [] None
     = geminiFallback w_no_groq_key (st_idle\<lparr>isLoading := True, error := None, statusMessage := None\<rparr>)
         (systemInstruction sv0 GENERAL) ''hi'' [] None
   \<and> filter isGroqCall (effects (fst (sendMessage sv0 w_no_groq_key st_idle ''hi'' GENERAL [] None))) = []
   \<and> snd (sendMessage sv0 w_no_gemini_key st_idle ''hi'' GENERAL [] None)
       = Inl (Error ''Gemini API Key missing'')
   \<and> error (fst (sendMessage sv0 w_no_gemini_key st_idle ''hi'' GENERAL [] None))
       = Some ''Gemini API Key missing''
   \<and> filter isGeminiCall (effects (fst (sendMessage sv0 w_no_gemini_key st_idle ''hi'' GENERAL [] None))) = []
   \<and> filter isWait (effects (fst (sendMessage sv0 w_no_gemini_key st_idle ''hi'' GENERAL [] None))) = []"
proof -
  have a: "\<not> hasImage None \<and> falsy (VITE_GROQ_API_KEY w_no_groq_key)"
    by (simp add: hasImage_def falsy_def w_no_groq_key_def)
  have b: "falsy (VITE_GEMINI_API_KEY w_no_gemini_key)
           \<and> (hasImage None \<or> falsy (VITE_GROQ_API_KEY w_no_gemini_key)
              \<or> primaryFails (groq_create w_no_gemini_key
                   (groqRequest (systemInstruction sv0 GENERAL) ''hi'' [] None)))"
    by (simp add: falsy_def w_no_gemini_key_def primaryFails_def)
  note inst = C5_missing_key[OF refl refl refl, where sv = sv0 and subject = GENERAL
      and input = "''hi''" and prev = "[]" and att = None and ?st0.0 = st_idle]
  from inst[where w = w_no_groq_key, THEN conjunct1, rule_format, OF a]
       inst[where w = w_no_gemini_key, THEN conjunct2, rule_format, OF b]
  show ?thesis
    by (simp add: st_idle_def geminiFallback_no_groq)
qed

text \<open>
  No Groq key is configured and Gemini answers: the call returns the answer of the
  fallback, and no error is raised or recorded.
\<close>

theorem C5_counterexample:
  "VITE_GROQ_API_KEY w_no_groq_key = None
   \<and> snd (sendMessage sv0 w_no_groq_key st_idle ''hi'' GENERAL [] None) = Inr ''backup answer''
   \<and> error (fst (sendMessage sv0 w_no_groq_key st_idle ''hi'' GENERAL [] None)) = None"
  by (simp add: sendMessage_def hasImage_def groqRoute_def geminiFallback_def Let_def
        fallbackLoop_budget_1 w_no_groq_key_def falsy_def rateLimited_def
        st_idle_def perform_def retryTrace_0)

section \<open>History\<close>

text \<open>
  Both mappings keep the length and the order of the history, translate the roles, and
  map the empty history to the empty sequence.
\<close>

lemma groqHistory_length: "length (groqHistory ms) = length ms"
  by (simp add: groqHistory_def)

lemma geminiHistory_length: "length (geminiHistory ms) = length ms"
  by (simp add: geminiHistory_def)

lemma history_empty: "groqHistory [] = [] \<and> geminiHistory [] = []"
  by (simp add: groqHistory_def geminiHistory_def)

lemma groqHistory_nth:
  "i < length ms \<Longrightarrow>
   groqHistory ms ! i =
     GroqMessage (if msg_role (ms ! i) = USER then ''user'' else ''assistant'')
       (msg_content (ms ! i) @
          (case msg_attachment (ms ! i) of
             Some a \<Rightarrow> if att_type a = TEXT then nl @ ''[File]: '' @ att_content a else []
           | None \<Rightarrow> []))"
  by (simp add: groqHistory_def)

text \<open>The turn of the fallback history does not depend on the attachment of its message.\<close>

lemma geminiHistory_nth:
  "i < length ms \<Longrightarrow>
   geminiHistory ms ! i =
     GeminiTurn (if msg_role (ms ! i) = USER then ''user'' else ''model'')
       [TextPart (msg_content (ms ! i))]"
  by (simp add: geminiHistory_def)

text \<open>
  C8 asks that a past message with a TEXT attachment has the attachment's content
  appended to its turn, for either provider. On a history whose first message carries a
  text file, the Groq mapping appends the file under the \<^verbatim>\<open>[File]:\<close> marker; the
  mapping of the Gemini fallback keeps the message's own content and drops the file. A
  run in which Groq fails sends both histories.
\<close>

theorem C8_history_of_the_fallback:
  "groqHistory history1 =
     [GroqMessage ''user'' (''see my file'' @ nl @ ''[File]: print(1)''),
      GroqMessage ''assistant'' ''It prints 1.'']
   \<and> geminiHistory history1 =
     [GeminiTurn ''user'' [TextPart ''see my file''],
      GeminiTurn ''model'' [TextPart ''It prints 1.'']]
   \<and> effects (fst (sendMessage sv0 w_fallback_ok st_idle ''hi'' GENERAL history1 None)) =
     [GroqCreate
        \<lparr>gr_messages =
           [GroqMessage ''system'' (systemInstruction sv0 GENERAL),
            GroqMessage ''user'' (''see my file'' @ nl @ ''[File]: print(1)''),
            GroqMessage ''assistant'' ''It prints 1.'',
            GroqMessage ''user'' ''hi''],
         gr_model = ''llama-3.3-70b-versatile'', gr_temperature = 7 / 10, gr_max_tokens = 1024\<rparr>,
      ChatSendMessage
        \<lparr>gc_model = flashModel (systemInstruction sv0 GENERAL),
         gc_history =
           [GeminiTurn ''user'' [TextPart ''see my file''],
            GeminiTurn ''model'' [TextPart ''It prints 1.'']],
         gc_maxOutputTokens = 1000, gc_temperature = 7 / 10\<rparr>
        ''hi'']"
  by (simp add: sendMessage_def hasImage_def groqRoute_def geminiFallback_def Let_def
        fallbackLoop_budget_1 w_fallback_ok_def falsy_def rateLimited_def
        st_idle_def perform_def retryTrace_0 groqRequest_def fallbackChat_def
        groqHistory_def geminiHistory_def history1_def code_file_def finalPrompt_def
        fallbackPrompt_def)

section \<open>Properties of the system instruction\<close>

lemma startsWith_append: "startsWith (p @ rest) p"
  by (induction p) simp_all

lemma str_includes_append_right: "str_includes ys p \<Longrightarrow> str_includes (xs @ ys) p"
proof (induction xs)
  case Nil
  then show ?case by simp
next
  case (Cons x xs)
  then show ?case by simp
qed

lemma latexDirective_includes:
  "str_includes latexDirective ''Wrap block equations in $$''
   \<and> str_includes latexDirective ''inline in $.''
   \<and> str_includes latexDirective ''step-by-step explanations''"
  by (simp add: latexDirective_def)

lemma quantitativeTail_includes:
  "str_includes quantitativeTail ''double dollar signs: $$ ... $$''"
  "str_includes quantitativeTail ''single dollar signs: $ ... $''"
  "str_includes quantitativeTail ''Explain concepts step-by-step''"
  by code_simp+

lemma getSystemInstruction_quantitative:
  "s = MATH \<or> s = PHYSICS \<or> s = CHEMISTRY \<Longrightarrow>
   getSystemInstruction sv s = baseInstruction sv s @ quantitativeTail"
  by (auto simp: getSystemInstruction_def)

lemma instruction_quantitative:
  "s = MATH \<or> s = PHYSICS \<or> s = CHEMISTRY \<Longrightarrow>
   systemInstruction sv s =
     (''You are an expert '' @ sv s @
      '' tutor. If the user asks for a comparison or list, ALWAYS format the output as a Markdown Table.'')
     @ latexDirective
   \<and> geminiInstruction sv s = (''You are an expert '' @ sv s @ '' tutor.'') @ latexDirective"
  by (auto simp: systemInstruction_def geminiInstruction_def)


text \<open>
  C9. For every subject and every string value of it, each builder (the instruction of
  \<^verbatim>\<open>useAI\<close>, that of \<^verbatim>\<open>useGemini\<close>, and \<^verbatim>\<open>getSystemInstruction\<close>) returns a
  non-empty string that opens by naming the expert tutor of that subject:
  \<^verbatim>\<open>You are an expert <subject> tutor.\<close> in the hooks,
  \<^verbatim>\<open>You are a helpful, expert tutor specializing in <subject>.\<close> in the service. For
  MATH, PHYSICS and CHEMISTRY the instruction also contains the directive for block
  equations with the delimiter \<^verbatim>\<open>$$\<close>, the directive for inline equations with the
  delimiter \<^verbatim>\<open>$\<close>, two different strings, and the step-by-step directive.
\<close>

theorem C9_system_instruction:
  "systemInstruction sv s \<noteq> []
   \<and> startsWith (systemInstruction sv s) (''You are an expert '' @ sv s @ '' tutor.'')
   \<and> geminiInstruction sv s \<noteq> []
   \<and> startsWith (geminiInstruction sv s) (''You are an expert '' @ sv s @ '' tutor.'')
   \<and> getSystemInstruction sv s \<noteq> []
   \<and> startsWith (getSystemInstruction sv s)
        (''You are a helpful, expert tutor specializing in '' @ sv s @ ''.'')
   \<and> (s = MATH \<or> s = PHYSICS \<or> s = CHEMISTRY \<longrightarrow>
        str_includes (systemInstruction sv s) ''Wrap block equations in $$''
        \<and> str_includes (systemInstruction sv s) ''inline in $.''
        \<and> str_includes (systemInstruction sv s) ''step-by-step explanations''
        \<and> str_includes (geminiInstruction sv s) ''Wrap block equations in $$''
        \<and> str_includes (geminiInstruction sv s) ''inline in $.''
        \<and> str_includes (geminiInstruction sv s) ''step-by-step explanations''
        \<and> str_includes (getSystemInstruction sv s) ''double dollar signs: $$ ... $$''
        \<and> str_includes (getSystemInstruction sv s) ''single dollar signs: $ ... $''
        \<and> str_includes (getSystemInstruction sv s) ''Explain concepts step-by-step''
        \<and> ''$$'' \<noteq> ''$'')"
proof (intro conjI impI)
  show "systemInstruction sv s \<noteq> []"
    by (simp add: systemInstruction_def)
  show "geminiInstruction sv s \<noteq> []"
    by (simp add: geminiInstruction_def)
  show "getSystemInstruction sv s \<noteq> []"
    by (simp add: getSystemInstruction_def baseInstruction_def)
  have "systemInstruction sv s =
      (''You are an expert '' @ sv s @ '' tutor.'') @
      ('' If the user asks for a comparison or list, ALWAYS format the output as a Markdown Table.''
       @ (if s \<in> set [MATH, PHYSICS, CHEMISTRY] then latexDirective else []))"
    by (simp add: systemInstruction_def)
  then show "startsWith (systemInstruction sv s) (''You are an expert '' @ sv s @ '' tutor.'')"
    by (simp only: startsWith_append)
  have "geminiInstruction sv s =
      (''You are an expert '' @ sv s @ '' tutor.'')
      @ (if s \<in> set [MATH, PHYSICS, CHEMISTRY] then latexDirective else [])"
    by (simp add: geminiInstruction_def)
  then show "startsWith (geminiInstruction sv s) (''You are an expert '' @ sv s @ '' tutor.'')"
    by (simp only: startsWith_append)
  have "\<exists>rest. getSystemInstruction sv s = baseInstruction sv s @ rest"
    by (simp add: getSystemInstruction_def)
  then obtain rest where "getSystemInstruction sv s =
      (''You are a helpful, expert tutor specializing in '' @ sv s @ ''.'') @ rest"
    by (auto simp only: baseInstruction_def)
  then show "startsWith (getSystemInstruction sv s)
        (''You are a helpful, expert tutor specializing in '' @ sv s @ ''.'')"
    by (simp only: startsWith_append)
next
  assume q: "s = MATH \<or> s = PHYSICS \<or> s = CHEMISTRY"
  note i = instruction_quantitative[OF q, of sv]
  note g = getSystemInstruction_quantitative[OF q, of sv]
  note l = latexDirective_includes
  show "str_includes (systemInstruction sv s) ''Wrap block equations in $$''"
    by (simp only: i str_includes_append_right[OF l[THEN conjunct1]])
  show "str_includes (systemInstruction sv s) ''inline in $.''"
    by (simp only: i str_includes_append_right[OF l[THEN conjunct2, THEN conjunct1]])
  show "str_includes (systemInstruction sv s) ''step-by-step explanations''"
    by (simp only: i str_includes_append_right[OF l[THEN conjunct2, THEN conjunct2]])
  show "str_includes (geminiInstruction sv s) ''Wrap block equations in $$''"
    by (simp only: i str_includes_append_right[OF l[THEN conjunct1]])
  show "str_includes (geminiInstruction sv s) ''inline in $.''"
    by (simp only: i str_includes_append_right[OF l[THEN conjunct2, THEN conjunct1]])
  show "str_includes (geminiInstruction sv s) ''step-by-step explanations''"
    by (simp only: i str_includes_append_right[OF l[THEN conjunct2, THEN conjunct2]])
  show "str_includes (getSystemInstruction sv s) ''double dollar signs: $$ ... $$''"
    by (simp only: g str_includes_append_right[OF quantitativeTail_includes(1)])
  show "str_includes (getSystemInstruction sv s) ''single dollar signs: $ ... $''"
    by (simp only: g str_includes_append_right[OF quantitativeTail_includes(2)])
  show "str_includes (getSystemInstruction sv s) ''Explain concepts step-by-step''"
    by (simp only: g str_includes_append_right[OF quantitativeTail_includes(3)])
  show "''$$'' \<noteq> ''$''" by simp
qed

theorem C9_system_instruction_witness:
  "str_includes (systemInstruction sv0 MATH) ''Wrap block equations in $$''
   \<and> str_includes (systemInstruction sv0 MATH) ''inline in $.''
   \<and> str_includes (systemInstruction sv0 MATH) ''step-by-step explanations''
   \<and> str_includes (getSystemInstruction sv0 MATH) ''double dollar signs: $$ ... $$''
   \<and> str_includes (getSystemInstruction sv0 MATH) ''single dollar signs: $ ... $''
   \<and> startsWith (systemInstruction sv0 MATH) ''You are an expert Math tutor.''
   \<and> startsWith (getSystemInstruction sv0 MATH)
        ''You are a helpful, expert tutor specializing in Math.''"
proof -
  have m: "MATH = MATH \<or> MATH = PHYSICS \<or> MATH = CHEMISTRY" by simp
  have n: "''You are a helpful, expert tutor specializing in '' @ sv0 MATH @ ''.''
           = ''You are a helpful, expert tutor specializing in Math.''"
          "''You are an expert '' @ sv0 MATH @ '' tutor.'' = ''You are an expert Math tutor.''"
    by (simp_all add: sv0_def)
  note c = C9_system_instruction[of sv0 MATH, unfolded n]
  from c m show ?thesis
    by blast
qed

section \<open>The image payload\<close>

text \<open>
  The second piece of a split is the text between the first separator and the next one
  (or the end); there is none when the string has no separator.
\<close>

lemma js_split_unfold:
  "js_split sep s =
     takeWhile (\<lambda>c. c \<noteq> sep) s
     # (if sep \<in> set s then js_split sep (drop 1 (dropWhile (\<lambda>c. c \<noteq> sep) s)) else [])"
proof (induction s)
  case Nil
  then show ?case by simp
next
  case (Cons c cs)
  show ?case
  proof (cases "c = sep")
    case True
    then show ?thesis by simp
  next
    case False
    then show ?thesis using Cons.IH by auto
  qed
qed

lemma js_split_second:
  "at_index (js_split sep s) (Suc 0) =
     (if sep \<in> set s
      then Some (takeWhile (\<lambda>c. c \<noteq> sep) (drop (Suc 0) (dropWhile (\<lambda>c. c \<noteq> sep) s)))
      else None)"
proof (cases "sep \<in> set s")
  case True
  have "js_split sep s =
      takeWhile (\<lambda>c. c \<noteq> sep) s # js_split sep (drop 1 (dropWhile (\<lambda>c. c \<noteq> sep) s))"
    using True js_split_unfold[of sep s] by simp
  moreover have "\<exists>ws. js_split sep (drop 1 (dropWhile (\<lambda>c. c \<noteq> sep) s))
      = takeWhile (\<lambda>c. c \<noteq> sep) (drop 1 (dropWhile (\<lambda>c. c \<noteq> sep) s)) # ws"
    using js_split_unfold[of sep "drop 1 (dropWhile (\<lambda>c. c \<noteq> sep) s)"] by blast
  ultimately show ?thesis
    using True by (auto simp: at_index_def)
next
  case False
  then show ?thesis
    using js_split_unfold[of sep s] by (simp add: at_index_def)
qed

lemma base64Data_segment:
  "base64Data content =
     (let seg = takeWhile (\<lambda>c. c \<noteq> CHR '','') (afterFirstComma content)
      in if seg = [] then content else seg)"
proof (cases "CHR '','' \<in> set content")
  case True
  then show ?thesis
    by (simp add: base64Data_def js_split_second afterFirstComma_def or_else_def Let_def)
next
  case False
  then have dw: "dropWhile (\<lambda>c. c \<noteq> CHR '','') content = []"
    by auto
  have "at_index (js_split (CHR '','') content) (Suc 0) = None"
    using False by (simp add: js_split_second)
  then have "base64Data content = content"
    by (simp add: base64Data_def or_else_def)
  moreover have "afterFirstComma content = []"
    unfolding afterFirstComma_def dw by simp
  ultimately show ?thesis by simp
qed

text \<open>
  C10, as the code has it. The payload of an image is the segment of the content between
  its first comma and the next comma or the end, when that segment is not empty, and the
  whole content otherwise. So content without a comma is sent unchanged, and content
  whose part after the first comma is not empty and has no further comma (a data URL) is
  sent as that part. An attachment with content gives the parts: the prompt text, then
  the inline payload with the attachment's MIME type, or \<^verbatim>\<open>image/jpeg\<close> when the type
  is absent or empty. On the image route with the Gemini key set, these parts are the
  one request made.
\<close>

theorem C10_image_payload:
  "base64Data content =
     (let seg = takeWhile (\<lambda>c. c \<noteq> CHR '','') (afterFirstComma content)
      in if seg = [] then content else seg)
   \<and> (CHR '','' \<notin> set content \<longrightarrow> base64Data content = content)
   \<and> (CHR '','' \<notin> set (afterFirstComma content) \<and> afterFirstComma content \<noteq> []
        \<longrightarrow> base64Data content = afterFirstComma content)
   \<and> (att_content a \<noteq> [] \<longrightarrow>
        promptParts input (Some a) =
          [TextPart input,
           InlineData (base64Data (att_content a))
             (case att_mimeType a of None \<Rightarrow> ''image/jpeg''
              | Some m \<Rightarrow> if m = [] then ''image/jpeg'' else m)])
   \<and> (hasImage (Some a) \<and> \<not> falsy (VITE_GEMINI_API_KEY w) \<longrightarrow>
        effects (fst (sendMessage sv w st0 input subject prev (Some a))) =
          effects st0 @ [GenerateContent (flashModel (systemInstruction sv subject))
                           (promptParts input (Some a))])"
proof (intro conjI impI)
  show "base64Data content =
     (let seg = takeWhile (\<lambda>c. c \<noteq> CHR '','') (afterFirstComma content)
      in if seg = [] then content else seg)"
    by (rule base64Data_segment)
next
  assume "CHR '','' \<notin> set content"
  then have dw: "dropWhile (\<lambda>c. c \<noteq> CHR '','') content = []"
    by auto
  have "afterFirstComma content = []"
    unfolding afterFirstComma_def dw by simp
  then show "base64Data content = content"
    by (simp add: base64Data_segment)
next
  assume h: "CHR '','' \<notin> set (afterFirstComma content) \<and> afterFirstComma content \<noteq> []"
  then have tw: "takeWhile (\<lambda>c. c \<noteq> CHR '','') (afterFirstComma content)
                  = afterFirstComma content"
    by (auto simp: takeWhile_eq_all_conv)
  show "base64Data content = afterFirstComma content"
    unfolding base64Data_segment Let_def tw using h by simp
next
  assume "att_content a \<noteq> []"
  then show "promptParts input (Some a) =
          [TextPart input,
           InlineData (base64Data (att_content a))
             (case att_mimeType a of None \<Rightarrow> ''image/jpeg''
              | Some m \<Rightarrow> if m = [] then ''image/jpeg'' else m)]"
    by (simp add: promptParts_def or_else_def)
next
  assume "hasImage (Some a) \<and> \<not> falsy (VITE_GEMINI_API_KEY w)"
  then show "effects (fst (sendMessage sv w st0 input subject prev (Some a))) =
          effects st0 @ [GenerateContent (flashModel (systemInstruction sv subject))
                           (promptParts input (Some a))]"
    by (simp add: sendMessage_image visionRoute_effects)
qed

theorem C10_image_payload_witness:
  "base64Data ''iVBORw0KGgo='' = ''iVBORw0KGgo=''
   \<and> base64Data ''data:image/png;base64,iVBORw0KGgo='' = ''iVBORw0KGgo=''
   \<and> promptParts ''what is this'' (Some png)
       = [TextPart ''what is this'', InlineData ''iVBORw0KGgo='' ''image/jpeg'']
   \<and> effects (fst (sendMessage sv0 w_ok st_idle ''what is this'' GENERAL [] (Some png)))
       = [GenerateContent (flashModel (systemInstruction sv0 GENERAL))
            [TextPart ''what is this'', InlineData ''iVBORw0KGgo='' ''image/jpeg'']]"
proof -
  have n: "CHR '','' \<notin> set ''iVBORw0KGgo=''" by simp
  have a: "afterFirstComma ''data:image/png;base64,iVBORw0KGgo='' = ''iVBORw0KGgo=''"
    by (simp add: afterFirstComma_def)
  have o: "CHR '','' \<notin> set (afterFirstComma ''data:image/png;base64,iVBORw0KGgo='')
           \<and> afterFirstComma ''data:image/png;base64,iVBORw0KGgo='' \<noteq> []"
    by (simp add: a)
  have c: "att_content png \<noteq> []" by (simp add: png_def)
  have k: "hasImage (Some png) \<and> \<not> falsy (VITE_GEMINI_API_KEY w_ok)"
    by (simp add: hasImage_def png_def falsy_def w_ok_def)
  have 1: "base64Data ''iVBORw0KGgo='' = ''iVBORw0KGgo=''"
    using C10_image_payload[where content = "''iVBORw0KGgo=''", THEN conjunct2, THEN conjunct1,
        rule_format, OF n] .
  have 2: "base64Data ''data:image/png;base64,iVBORw0KGgo='' = ''iVBORw0KGgo=''"
    using C10_image_payload[where content = "''data:image/png;base64,iVBORw0KGgo=''",
        THEN conjunct2, THEN conjunct2, THEN conjunct1, rule_format, OF o] a by simp
  have 3: "promptParts ''what is this'' (Some png)
       = [TextPart ''what is this'', InlineData ''iVBORw0KGgo='' ''image/jpeg'']"
    using C10_image_payload[where a = png and input = "''what is this''",
        THEN conjunct2, THEN conjunct2, THEN conjunct2, THEN conjunct1, rule_format, OF c] 2
    by (simp add: png_def)
  have 4: "effects (fst (sendMessage sv0 w_ok st_idle ''what is this'' GENERAL [] (Some png)))
       = effects st_idle @ [GenerateContent (flashModel (systemInstruction sv0 GENERAL))
            (promptParts ''what is this'' (Some png))]"
    using C10_image_payload[where a = png and w = w_ok,
        THEN conjunct2, THEN conjunct2, THEN conjunct2, THEN conjunct2, rule_format, OF k] .
  from 1 2 3 4 show ?thesis by (simp add: st_idle_def)
qed

text \<open>
  A content with two commas: what follows the first comma is \<^verbatim>\<open>b;base64,iVBORw0KGgo=\<close>,
  what is sent is \<^verbatim>\<open>b;base64\<close>. A content that ends with its only comma: nothing
  follows the comma, and the whole content is sent, comma included.
\<close>

theorem C10_counterexample:
  "afterFirstComma (att_content two_commas) = ''b;base64,iVBORw0KGgo=''
   \<and> promptParts ''what is this'' (Some two_commas)
       = [TextPart ''what is this'', InlineData ''b;base64'' ''image/png'']
   \<and> afterFirstComma ''iVBORw0KGgo=,'' = []
   \<and> base64Data ''iVBORw0KGgo=,'' = ''iVBORw0KGgo=,''"
  by (simp add: two_commas_def afterFirstComma_def promptParts_def base64Data_def at_index_def
        or_else_def)

end
